theory Spec2Isabelle
  imports Main "HOL-Library.Word"
begin

unbundle bit_operations_syntax

section \<open>Data model of port.c\<close>

text \<open>
  The declarations of msg.h, ds.h, fsm.h, fd.h and foreign.h are not part of the
  sources; the records below carry exactly the fields that port.c reads or writes,
  with the widths the PTP data types have (UInteger16 a 16 bit word, Integer8 an
  8 bit word read through \<open>sint\<close>, Integer64 a 64 bit word).  A \<open>struct timespec\<close>
  has 64 bit signed fields (LP64).
\<close>

text \<open>\<open>struct PortIdentity\<close>: eight octets of clock identity and a port number.
  The structure is packed, so \<open>memcmp\<close> over it is equality of the two fields.\<close>

record PortIdentity =
  clockIdentity :: "64 word"
  portNumber :: "16 word"

record timespec =
  tv_sec :: "64 word"
  tv_nsec :: "64 word"

text \<open>\<open>struct timestamp\<close>, the decoded on-wire time \<open>m->ts.pdu\<close>.\<close>

record timestamp =
  sec :: "64 word"
  nsec :: "32 word"

text \<open>\<open>struct Timestamp\<close>, the wire format inside a message body.  Each field holds
  what \<open>htonl\<close>/\<open>htons\<close> returned.\<close>

record Timestamp_wire =
  seconds_msb :: "16 word"
  seconds_lsb :: "32 word"
  nanoseconds :: "32 word"

datatype timestamp_type = TS_SOFTWARE | TS_HARDWARE | TS_LEGACY_HW

record hw_timestamp =
  hwts_type :: timestamp_type
  hwts_ts :: timespec

datatype message_type =
  SYNC | DELAY_REQ | PDELAY_REQ | PDELAY_RESP | FOLLOW_UP | DELAY_RESP
  | PDELAY_RESP_FOLLOW_UP | ANNOUNCE | SIGNALING | MANAGEMENT

datatype control_field = CTL_SYNC | CTL_DELAY_REQ | CTL_FOLLOW_UP | CTL_DELAY_RESP
  | CTL_MANAGEMENT | CTL_OTHER

record ptp_header =
  tsmt :: message_type
  ver :: "8 word"
  messageLength :: "16 word"
  domainNumber :: "8 word"
  flagField0 :: "8 word"
  correction :: "64 word"
  sourcePortIdentity :: PortIdentity
  sequenceId :: "16 word"
  control :: control_field
  logMessageInterval :: "8 word"

record ClockQuality =
  clockClass :: "8 word"
  clockAccuracy :: "8 word"
  offsetScaledLogVariance :: "16 word"

record announce_msg =
  grandmasterPriority1 :: "8 word"
  grandmasterClockQuality :: ClockQuality
  grandmasterPriority2 :: "8 word"
  grandmasterIdentity :: "64 word"
  stepsRemoved :: "16 word"

record delay_resp_msg =
  receiveTimestamp :: Timestamp_wire
  requestingPortIdentity :: PortIdentity

text \<open>\<open>struct ptp_message\<close>.  The C type is a union of the message bodies behind a
  common header; port.c reads the announce body only of Announce messages and the
  delay response body only of Delay_Resp messages, so the two bodies are separate
  fields here.  \<open>m->announce.hdr\<close>, \<open>m->delay_resp.hdr\<close> and \<open>m->delay_req.hdr\<close> are
  all the field \<open>header\<close>.  Reference counts (\<open>msg_get\<close>, \<open>msg_put\<close>) are not
  modelled: a message is a value, and a retained message is a copy of it.\<close>

record ptp_message =
  header :: ptp_header
  announce :: announce_msg
  delay_resp :: delay_resp_msg
  ts_pdu :: timestamp
  ts_host :: timespec
  hwts :: hw_timestamp

record dataset =
  priority1 :: "8 word"
  identity :: "64 word"
  quality :: ClockQuality
  priority2 :: "8 word"
  ds_stepsRemoved :: "16 word"
  sender :: PortIdentity
  receiver :: PortIdentity

text \<open>\<open>struct foreign_clock\<close>: the tail queue \<open>messages\<close> is a list with the queue's
  head first; \<open>n_messages\<close> is the separate unsigned counter of the C structure.\<close>

record foreign_clock =
  fc_dataset :: dataset
  messages :: "ptp_message list"
  n_messages :: "32 word"

datatype port_state =
  PS_INITIALIZING | PS_FAULTY | PS_DISABLED | PS_LISTENING | PS_PRE_MASTER
  | PS_MASTER | PS_GRAND_MASTER | PS_PASSIVE | PS_UNCALIBRATED | PS_SLAVE

text \<open>The events port.c names, and the remaining enumerators of fsm.h.\<close>

datatype fsm_event =
  EV_NONE | EV_FAULT_DETECTED | EV_STATE_DECISION_EVENT
  | EV_ANNOUNCE_RECEIPT_TIMEOUT_EXPIRES | EV_OTHER nat

text \<open>Modelled from the spec: the fixed-index descriptor slots of \<open>struct fdarray\<close>
  (fd.h is not part of the sources): two transport slots and the two timer slots.\<close>

datatype fd_index = FD_EVENT | FD_GENERAL | FD_ANNOUNCE_TIMER | FD_DELAY_TIMER

record fdarray =
  cnt :: int
  fd :: "fd_index \<Rightarrow> int"

text \<open>\<open>struct port\<close>.  \<open>best\<close> points into the list \<open>foreign_masters\<close>; records are
  never freed, so the pointer is the position of the record in the list (a new
  record inserted at the head moves every position up by one).  The retained
  messages are optional values, \<open>None\<close> for the null pointer.\<close>

record port =
  name :: string
  timestamping :: timestamp_type
  fda :: fdarray
  best :: "nat option"
  last_follow_up :: "ptp_message option"
  last_sync :: "ptp_message option"
  delay_req :: "ptp_message option"
  seqnum :: "16 word"
  portIdentity :: PortIdentity
  state :: port_state
  logMinDelayReqInterval :: "8 word"
  peerMeanPathDelay :: "64 word"
  logAnnounceInterval :: "8 word"
  announceReceiptTimeout :: "8 word"
  logSyncInterval :: "8 word"
  delayMechanism :: "8 word"
  logMinPdelayReqInterval :: "8 word"
  versionNumber :: nat
  foreign_masters :: "foreign_clock list"

subsection \<open>The clock\<close>

text \<open>Modelled from the spec: clock.c is not part of the sources.  The clock is its
  identity, its parent identity, its domain number and the log of the invocations
  of \<open>clock_synchronize\<close>, \<open>clock_path_delay\<close> and \<open>clock_install_fda\<close> it has
  received, oldest first, the first two with their arguments in the order of the
  C call, the last with the identity of the installing port.\<close>

datatype clock_call =
  Synchronize timespec timestamp "64 word" "64 word"
  | Path_Delay timespec timestamp "64 word"
  | Install_Fda PortIdentity

record clock =
  clock_ident :: "64 word"
  parent_identity :: PortIdentity
  domain_number :: "8 word"
  calls :: "clock_call list"

definition clock_identity :: "clock \<Rightarrow> 64 word" where
  "clock_identity c = clock_ident c"

definition clock_install_fda :: "clock \<Rightarrow> port \<Rightarrow> clock" where
  "clock_install_fda c p = c\<lparr>calls := calls c @ [Install_Fda (portIdentity p)]\<rparr>"

definition clock_parent_identity :: "clock \<Rightarrow> PortIdentity" where
  "clock_parent_identity c = parent_identity c"

definition clock_domain_number :: "clock \<Rightarrow> 8 word" where
  "clock_domain_number c = domain_number c"

definition clock_synchronize ::
  "clock \<Rightarrow> timespec \<Rightarrow> timestamp \<Rightarrow> 64 word \<Rightarrow> 64 word \<Rightarrow> clock" where
  "clock_synchronize c ingress origin c1 c2 =
     c\<lparr>calls := calls c @ [Synchronize ingress origin c1 c2]\<rparr>"

definition clock_path_delay ::
  "clock \<Rightarrow> timespec \<Rightarrow> timestamp \<Rightarrow> 64 word \<Rightarrow> clock" where
  "clock_path_delay c req rx corr = c\<lparr>calls := calls c @ [Path_Delay req rx corr]\<rparr>"

text \<open>Modelled from the spec: \<open>one_step\<close> of msg.h, the flag in the message; a
  Sync is two-step when the twoStepFlag (bit 1 of the first flag octet) is set.\<close>

definition one_step :: "ptp_message \<Rightarrow> bool" where
  "one_step m = (\<not> bit (flagField0 (header m)) 1)"

definition msg_type :: "ptp_message \<Rightarrow> message_type" where
  "msg_type m = tsmt (header m)"

section \<open>Sync and Follow_Up\<close>

definition process_follow_up :: "port \<Rightarrow> clock \<Rightarrow> ptp_message \<Rightarrow> port \<times> clock" where
  "process_follow_up p c m =
     (case state p of
        PS_INITIALIZING \<Rightarrow> (p, c)
      | PS_FAULTY \<Rightarrow> (p, c)
      | PS_DISABLED \<Rightarrow> (p, c)
      | PS_LISTENING \<Rightarrow> (p, c)
      | PS_PRE_MASTER \<Rightarrow> (p, c)
      | PS_MASTER \<Rightarrow> (p, c)
      | PS_GRAND_MASTER \<Rightarrow> (p, c)
      | PS_PASSIVE \<Rightarrow> (p, c)
      | _ \<Rightarrow>
         if clock_parent_identity c \<noteq> sourcePortIdentity (header m) then (p, c)
         else (case last_sync p of
                 None \<Rightarrow> (p\<lparr>last_follow_up := Some m\<rparr>, c)
               | Some syn \<Rightarrow>
                   if sequenceId (header syn) \<noteq> sequenceId (header m)
                   then (p\<lparr>last_follow_up := Some m\<rparr>, c)
                   else if sourcePortIdentity (header syn) \<noteq> sourcePortIdentity (header m)
                   then (p, c)
                   else (p, clock_synchronize c (hwts_ts (hwts syn)) (ts_pdu m)
                              (correction (header syn)) (correction (header m)))))"

definition process_sync :: "port \<Rightarrow> clock \<Rightarrow> ptp_message \<Rightarrow> port \<times> clock" where
  "process_sync p c m =
     (case state p of
        PS_INITIALIZING \<Rightarrow> (p, c)
      | PS_FAULTY \<Rightarrow> (p, c)
      | PS_DISABLED \<Rightarrow> (p, c)
      | PS_LISTENING \<Rightarrow> (p, c)
      | PS_PRE_MASTER \<Rightarrow> (p, c)
      | PS_MASTER \<Rightarrow> (p, c)
      | PS_GRAND_MASTER \<Rightarrow> (p, c)
      | PS_PASSIVE \<Rightarrow> (p, c)
      | _ \<Rightarrow>
         if clock_parent_identity c \<noteq> sourcePortIdentity (header m) then (p, c)
         else if one_step m
         then (p, clock_synchronize c (hwts_ts (hwts m)) (ts_pdu m) (correction (header m)) 0)
         else (case last_follow_up p of
                 Some fup \<Rightarrow>
                   if sequenceId (header fup) = sequenceId (header m)
                   then (p, clock_synchronize c (hwts_ts (hwts m)) (ts_pdu fup)
                              (correction (header m)) (correction (header fup)))
                   else (p\<lparr>last_sync := Some m\<rparr>, c)
               | None \<Rightarrow> (p\<lparr>last_sync := Some m\<rparr>, c)))"

section \<open>The outside of port.c\<close>

text \<open>Modelled from the spec: the collaborators of port.c that are not part of the
  sources (message codec, transport, allocator, timer descriptors, monotonic clock).
  One value of \<open>env\<close> fixes what they answer during one call into the port:
  whether the host is little-endian, whether \<open>malloc\<close> and the two \<open>msg_allocate\<close>
  calls (receive buffer, message to send) succeed, the byte count, decoded buffer and
  \<open>msg_post_recv\<close> status of a receive, the status and converted message of
  \<open>msg_pre_send\<close>, the byte count and egress time stamp of a transport send, the
  status of \<open>timerfd_settime\<close> on a descriptor, the two \<open>timerfd_create\<close> results,
  the transport's \<open>open\<close>, and the reading of \<open>clock_gettime\<close>.\<close>

record env =
  host_le :: bool
  malloc_ok :: bool
  alloc_rx :: bool
  alloc_tx :: bool
  rx_cnt :: int
  rx_msg :: ptp_message
  rx_post :: int
  msg_pre_send :: "ptp_message \<Rightarrow> int \<times> ptp_message"
  send_cnt :: int
  send_hwts :: hw_timestamp
  settime_ret :: "int \<Rightarrow> int"
  tfd_create1 :: int
  tfd_create2 :: int
  tr_open :: "fdarray \<Rightarrow> int \<times> fdarray"
  now :: timespec

text \<open>What port.c changes outside the port and the clock: the value each timer
  descriptor was last armed with (seconds, 0 for a disarmed timer), the messages
  handed to the transport (with the event-channel flag), the descriptors closed.\<close>

record sys =
  timers :: "int \<Rightarrow> int"
  sent :: "(bool \<times> ptp_message) list"
  closed :: "int list"

definition timerfd_settime :: "env \<Rightarrow> sys \<Rightarrow> int \<Rightarrow> int \<Rightarrow> int \<times> sys" where
  "timerfd_settime e k f secs =
     (if settime_ret e f = 0 then (0, k\<lparr>timers := (timers k)(f := secs)\<rparr>)
      else (settime_ret e f, k))"

definition transport_send :: "env \<Rightarrow> sys \<Rightarrow> bool \<Rightarrow> ptp_message \<Rightarrow> int \<times> sys" where
  "transport_send e k ev msg =
     (if 0 < send_cnt e then (send_cnt e, k\<lparr>sent := sent k @ [(ev, msg)]\<rparr>)
      else (send_cnt e, k))"

definition close_fd :: "sys \<Rightarrow> int \<Rightarrow> sys" where
  "close_fd k f = k\<lparr>closed := closed k @ [f]\<rparr>"

subsection \<open>C arithmetic\<close>

text \<open>Signed overflow and an out-of-range shift are undefined in C: the result is
  \<open>None\<close>.  \<open>int\<close> has 32 bits, \<open>int64_t\<close> and \<open>long long\<close> 64.\<close>

definition chk32 :: "int \<Rightarrow> int option" where
  "chk32 x = (if - (2 ^ 31) \<le> x \<and> x < 2 ^ 31 then Some x else None)"

definition chk64 :: "int \<Rightarrow> int option" where
  "chk64 x = (if - (2 ^ 63) \<le> x \<and> x < 2 ^ 63 then Some x else None)"

definition shl1 :: "int \<Rightarrow> int option" where
  "shl1 n = (if 0 \<le> n \<and> n < 31 then Some (2 ^ nat n) else None)"

definition bswap16 :: "16 word \<Rightarrow> 16 word" where
  "bswap16 w = push_bit 8 w OR drop_bit 8 w"

definition bswap32 :: "32 word \<Rightarrow> 32 word" where
  "bswap32 w = push_bit 24 (take_bit 8 w) OR push_bit 16 (take_bit 8 (drop_bit 8 w))
               OR push_bit 8 (take_bit 8 (drop_bit 16 w)) OR drop_bit 24 w"

text \<open>\<open>htons\<close>, \<open>ntohs\<close> and \<open>htonl\<close> of the C library: the identity on a big-endian
  host, the exchange of the octets on a little-endian one.\<close>

definition htons :: "env \<Rightarrow> 16 word \<Rightarrow> 16 word" where
  "htons e w = (if host_le e then bswap16 w else w)"

definition ntohs :: "env \<Rightarrow> 16 word \<Rightarrow> 16 word" where
  "ntohs e w = (if host_le e then bswap16 w else w)"

definition htonl :: "env \<Rightarrow> 32 word \<Rightarrow> 32 word" where
  "htonl e w = (if host_le e then bswap32 w else w)"

section \<open>Foreign master records\<close>

text \<open>Modelled from the spec: \<open>FOREIGN_MASTER_THRESHOLD\<close> (its header is not part
  of the sources), the qualification count, with the standard's value 2.\<close>

definition FOREIGN_MASTER_THRESHOLD :: "32 word" where
  "FOREIGN_MASTER_THRESHOLD = 2"

definition NSEC2SEC :: int where
  "NSEC2SEC = 1000000000"

text \<open>\<open>announce_compare\<close> is a \<open>memcmp\<close> over the five contiguous fields; its callers
  only test the result against zero, so the model returns whether it is non-zero.\<close>

definition announce_compare :: "ptp_message \<Rightarrow> ptp_message \<Rightarrow> bool" where
  "announce_compare m1 m2 =
     (let a = announce m1; b = announce m2 in
      (grandmasterPriority1 a, grandmasterClockQuality a, grandmasterPriority2 a,
       grandmasterIdentity a, stepsRemoved a)
      \<noteq> (grandmasterPriority1 b, grandmasterClockQuality b, grandmasterPriority2 b,
         grandmasterIdentity b, stepsRemoved b))"

definition announce_to_dataset :: "ptp_message \<Rightarrow> clock \<Rightarrow> dataset \<Rightarrow> dataset" where
  "announce_to_dataset m c out =
     (let a = announce m in
      out\<lparr>priority1 := grandmasterPriority1 a,
          identity := grandmasterIdentity a,
          quality := grandmasterClockQuality a,
          priority2 := grandmasterPriority2 a,
          ds_stepsRemoved := stepsRemoved a,
          sender := sourcePortIdentity (header m),
          receiver := clock_parent_identity c\<rparr>)"

definition msg_current :: "ptp_message \<Rightarrow> timespec \<Rightarrow> bool option" where
  "msg_current m nw =
     Option.bind (chk64 (sint (tv_sec (ts_host m)) * NSEC2SEC)) (\<lambda>a1.
     Option.bind (chk64 (a1 + sint (tv_nsec (ts_host m)))) (\<lambda>t1.
     Option.bind (chk64 (sint (tv_sec nw) * NSEC2SEC)) (\<lambda>a2.
     Option.bind (chk64 (a2 + sint (tv_nsec nw))) (\<lambda>t2.
     Option.bind (shl1 (sint (logMessageInterval (header m)))) (\<lambda>s.
     Option.bind (chk32 (4 * s)) (\<lambda>s4.
     Option.bind (chk64 (s4 * NSEC2SEC)) (\<lambda>tmo.
     Option.bind (chk64 (t2 - t1)) (\<lambda>d. Some (d < tmo)))))))))"

definition msg_source_equal :: "ptp_message \<Rightarrow> foreign_clock \<Rightarrow> bool" where
  "msg_source_equal m1 fc = (sourcePortIdentity (header m1) = sender (fc_dataset fc))"

definition pid_eq :: "PortIdentity \<Rightarrow> PortIdentity \<Rightarrow> bool" where
  "pid_eq a b = (a = b)"

text \<open>\<open>m = TAILQ_LAST(...); TAILQ_REMOVE(...); fc->n_messages--; msg_put(m)\<close>, the
  body of the three loops below; the counter is unsigned and wraps.  \<open>TAILQ_LAST\<close>
  of an empty queue dereferences a null pointer: the loops then yield \<open>None\<close>.\<close>

definition drop_last :: "foreign_clock \<Rightarrow> foreign_clock" where
  "drop_last fc = fc\<lparr>messages := butlast (messages fc), n_messages := n_messages fc - 1\<rparr>"

function fc_clear :: "foreign_clock \<Rightarrow> foreign_clock option" where
  "fc_clear fc =
     (if n_messages fc \<noteq> 0
      then (if messages fc = [] then None else fc_clear (drop_last fc))
      else Some fc)"
  by pat_completeness auto
termination
  by (relation "measure (\<lambda>fc. unat (n_messages fc))")
     (auto simp: drop_last_def unat_minus_one unat_gt_0)

text \<open>The two loops of \<open>fc_prune\<close>: down to the threshold, then while the oldest
  message is not current.\<close>

function fc_prune_excess :: "foreign_clock \<Rightarrow> foreign_clock option" where
  "fc_prune_excess fc =
     (if FOREIGN_MASTER_THRESHOLD < n_messages fc
      then (if messages fc = [] then None else fc_prune_excess (drop_last fc))
      else Some fc)"
  by pat_completeness auto
termination
proof (relation "measure (\<lambda>fc. unat (n_messages fc))")
  show "wf (measure (\<lambda>fc. unat (n_messages fc)))" by simp
next
  fix fc :: foreign_clock
  assume "FOREIGN_MASTER_THRESHOLD < n_messages fc"
  then have "n_messages fc \<noteq> 0" by auto
  then show "(drop_last fc, fc) \<in> measure (\<lambda>fc. unat (n_messages fc))"
    by (simp add: drop_last_def unat_minus_one unat_gt_0)
qed

function fc_prune_stale :: "timespec \<Rightarrow> foreign_clock \<Rightarrow> foreign_clock option" where
  "fc_prune_stale nw fc =
     (if messages fc = [] then Some fc
      else (case msg_current (last (messages fc)) nw of
              None \<Rightarrow> None
            | Some cur \<Rightarrow> if cur then Some fc else fc_prune_stale nw (drop_last fc)))"
  by pat_completeness auto
termination
  by (relation "measure (\<lambda>(nw, fc). length (messages fc))") (auto simp: drop_last_def)

declare fc_clear.simps [simp del] fc_prune_excess.simps [simp del]
  fc_prune_stale.simps [simp del]

definition fc_prune :: "timespec \<Rightarrow> foreign_clock \<Rightarrow> foreign_clock option" where
  "fc_prune nw fc =
     (case fc_prune_excess fc of None \<Rightarrow> None | Some fc1 \<Rightarrow> fc_prune_stale nw fc1)"

section \<open>The foreign master table\<close>

text \<open>\<open>LIST_FOREACH ... if (msg_source_equal(m, fc)) break\<close>: the position of the
  first record of the sender, \<open>None\<close> when the loop ends with \<open>fc\<close> null.\<close>

fun fc_lookup :: "ptp_message \<Rightarrow> foreign_clock list \<Rightarrow> nat option" where
  "fc_lookup m [] = None"
| "fc_lookup m (fc # fcs) =
     (if msg_source_equal m fc then Some 0 else map_option Suc (fc_lookup m fcs))"

definition zero_pid :: PortIdentity where
  "zero_pid = \<lparr>clockIdentity = 0, portNumber = 0\<rparr>"

definition zero_dataset :: dataset where
  "zero_dataset = \<lparr>priority1 = 0, identity = 0,
     quality = \<lparr>clockClass = 0, clockAccuracy = 0, offsetScaledLogVariance = 0\<rparr>,
     priority2 = 0, ds_stepsRemoved = 0, sender = zero_pid, receiver = zero_pid\<rparr>"

text \<open>The record after \<open>memset(fc, 0, sizeof(*fc))\<close> and the store of the sender.\<close>

definition new_foreign_clock :: "ptp_message \<Rightarrow> foreign_clock" where
  "new_foreign_clock m =
     \<lparr>fc_dataset = zero_dataset\<lparr>sender := sourcePortIdentity (header m)\<rparr>,
      messages = [], n_messages = 0\<rparr>"

text \<open>\<open>msg_get(m); fc->n_messages++; TAILQ_INSERT_HEAD(&fc->messages, m, list)\<close>.\<close>

definition fc_add :: "foreign_clock \<Rightarrow> ptp_message \<Rightarrow> foreign_clock" where
  "fc_add fc m = fc\<lparr>n_messages := n_messages fc + 1, messages := m # messages fc\<rparr>"

text \<open>\<open>TAILQ_NEXT(m, list)\<close> of the message just inserted is the second element of
  the queue; \<open>announce_compare\<close> dereferences it, so a queue without one is
  undefined behaviour.\<close>

definition compare_with_next :: "foreign_clock \<Rightarrow> bool option" where
  "compare_with_next fc =
     (case messages fc of
        m # tmp # _ \<Rightarrow> Some (announce_compare m tmp)
      | _ \<Rightarrow> None)"

definition add_foreign_master ::
  "env \<Rightarrow> port \<Rightarrow> ptp_message \<Rightarrow> (bool \<times> port) option" where
  "add_foreign_master e p m =
     (case fc_lookup m (foreign_masters p) of
        None \<Rightarrow>
          if \<not> malloc_ok e then Some (False, p)
          else Some (False, p\<lparr>foreign_masters := new_foreign_clock m # foreign_masters p,
                               best := map_option Suc (best p)\<rparr>)
      | Some i \<Rightarrow>
          (case fc_prune (now e) (foreign_masters p ! i) of
             None \<Rightarrow> None
           | Some fc0 \<Rightarrow>
               (let broke_threshold = (FOREIGN_MASTER_THRESHOLD - 1 = n_messages fc0);
                    fc1 = fc_add fc0 m;
                    p1 = p\<lparr>foreign_masters := (foreign_masters p)[i := fc1]\<rparr>
                in if 1 < n_messages fc1
                   then (case compare_with_next fc1 of
                           None \<Rightarrow> None
                         | Some diff \<Rightarrow> Some (broke_threshold \<or> diff, p1))
                   else Some (broke_threshold, p1))))"

section \<open>Timers\<close>

definition port_clr_tmo :: "env \<Rightarrow> sys \<Rightarrow> int \<Rightarrow> int \<times> sys" where
  "port_clr_tmo e k f = timerfd_settime e k f 0"

text \<open>\<open>p->announceReceiptTimeout * (1 << p->logAnnounceInterval)\<close> is computed in
  \<open>int\<close>; \<open>None\<close> when the shift or the product is undefined.\<close>

definition port_set_announce_tmo :: "env \<Rightarrow> port \<Rightarrow> sys \<Rightarrow> (int \<times> sys) option" where
  "port_set_announce_tmo e p k =
     Option.bind (shl1 (sint (logAnnounceInterval p))) (\<lambda>s.
     Option.bind (chk32 (uint (announceReceiptTimeout p) * s)) (\<lambda>v.
     Some (timerfd_settime e k (fd (fda p) FD_ANNOUNCE_TIMER) v)))"

definition port_set_delay_tmo :: "env \<Rightarrow> port \<Rightarrow> sys \<Rightarrow> (int \<times> sys) option" where
  "port_set_delay_tmo e p k =
     Option.bind (shl1 (sint (logMinDelayReqInterval p) + 1)) (\<lambda>v.
     Some (timerfd_settime e k (fd (fda p) FD_DELAY_TIMER) v))"

section \<open>Delay requests and responses\<close>

definition PTP_VERSION :: "8 word" where
  "PTP_VERSION = 2"

text \<open>The sizes of the packed wire structures: a header of 34 octets, a time stamp
  of 10, a port identity of 10.\<close>

definition sizeof_delay_req_msg :: "16 word" where
  "sizeof_delay_req_msg = 44"

definition sizeof_delay_resp_msg :: "16 word" where
  "sizeof_delay_resp_msg = 54"

definition zero_timespec :: timespec where
  "zero_timespec = \<lparr>tv_sec = 0, tv_nsec = 0\<rparr>"

text \<open>A message buffer after \<open>memset(msg, 0, sizeof(*msg))\<close>; the enumerations show
  their first enumerator.\<close>

definition zero_message :: ptp_message where
  "zero_message =
     \<lparr>header = \<lparr>tsmt = SYNC, ver = 0, messageLength = 0, domainNumber = 0, flagField0 = 0,
                correction = 0, sourcePortIdentity = zero_pid, sequenceId = 0,
                control = CTL_SYNC, logMessageInterval = 0\<rparr>,
      announce = \<lparr>grandmasterPriority1 = 0,
                  grandmasterClockQuality =
                    \<lparr>clockClass = 0, clockAccuracy = 0, offsetScaledLogVariance = 0\<rparr>,
                  grandmasterPriority2 = 0, grandmasterIdentity = 0, stepsRemoved = 0\<rparr>,
      delay_resp = \<lparr>receiveTimestamp = \<lparr>seconds_msb = 0, seconds_lsb = 0, nanoseconds = 0\<rparr>,
                    requestingPortIdentity = zero_pid\<rparr>,
      ts_pdu = \<lparr>sec = 0, nsec = 0\<rparr>,
      ts_host = zero_timespec,
      hwts = \<lparr>hwts_type = TS_SOFTWARE, hwts_ts = zero_timespec\<rparr>\<rparr>"

text \<open>The Delay_Req that \<open>port_delay_request\<close> fills in before \<open>msg_pre_send\<close>.\<close>

definition delay_req_build :: "port \<Rightarrow> clock \<Rightarrow> ptp_message" where
  "delay_req_build p c =
     zero_message
       \<lparr>hwts := (hwts zero_message)\<lparr>hwts_type := timestamping p\<rparr>,
        header := (header zero_message)
          \<lparr>tsmt := DELAY_REQ,
           ver := PTP_VERSION,
           messageLength := sizeof_delay_req_msg,
           domainNumber := clock_domain_number c,
           sourcePortIdentity := portIdentity p,
           sequenceId := seqnum p,
           control := CTL_DELAY_REQ,
           logMessageInterval := 0x7f\<rparr>\<rparr>"

definition port_delay_request ::
  "env \<Rightarrow> port \<Rightarrow> clock \<Rightarrow> sys \<Rightarrow> int \<times> port \<times> sys" where
  "port_delay_request e p c k =
     (if \<not> alloc_tx e then (- 1, p, k)
      else
        (let msg = delay_req_build p c;
             p1 = p\<lparr>seqnum := seqnum p + 1\<rparr>;
             (err, msg1) = msg_pre_send e msg
         in if err \<noteq> 0 then (- 1, p1, k)
            else
              (let (n, k1) = transport_send e k True msg1;
                   msg2 = msg1\<lparr>hwts := send_hwts e\<rparr>
               in if n \<le> 0 then (- 1, p1, k1)
                  else (0, p1\<lparr>delay_req := Some msg2\<rparr>, k1))))"

text \<open>The Delay_Resp that \<open>process_delay_req\<close> fills in before \<open>msg_pre_send\<close>.
  \<open>htonl\<close> takes a \<open>uint32_t\<close>: the 64 bit seconds and nanoseconds are truncated.\<close>

definition delay_resp_build :: "env \<Rightarrow> port \<Rightarrow> ptp_message \<Rightarrow> ptp_message" where
  "delay_resp_build e p m =
     zero_message
       \<lparr>hwts := (hwts zero_message)\<lparr>hwts_type := timestamping p\<rparr>,
        header := (header zero_message)
          \<lparr>tsmt := DELAY_RESP,
           ver := PTP_VERSION,
           messageLength := sizeof_delay_resp_msg,
           domainNumber := domainNumber (header m),
           correction := correction (header m),
           sourcePortIdentity := portIdentity p,
           sequenceId := sequenceId (header m),
           control := CTL_DELAY_RESP,
           logMessageInterval := logMinDelayReqInterval p\<rparr>,
        delay_resp :=
          \<lparr>receiveTimestamp =
             \<lparr>seconds_msb = htons e 0,
              seconds_lsb = htonl e (ucast (tv_sec (hwts_ts (hwts m)))),
              nanoseconds = htonl e (ucast (tv_nsec (hwts_ts (hwts m))))\<rparr>,
           requestingPortIdentity = sourcePortIdentity (header m)\<rparr>\<rparr>"

definition process_delay_req :: "env \<Rightarrow> port \<Rightarrow> ptp_message \<Rightarrow> sys \<Rightarrow> int \<times> sys" where
  "process_delay_req e p m k =
     (if state p \<noteq> PS_MASTER \<and> state p \<noteq> PS_GRAND_MASTER then (- 1, k)
      else if \<not> alloc_tx e then (- 1, k)
      else
        (let msg = delay_resp_build e p m;
             (err, msg1) = msg_pre_send e msg
         in if err \<noteq> 0 then (- 1, k)
            else
              (let (n, k1) = transport_send e k False msg1
               in if n \<le> 0 then (- 1, k1) else (0, k1))))"

definition process_delay_resp ::
  "env \<Rightarrow> port \<Rightarrow> clock \<Rightarrow> ptp_message \<Rightarrow> port \<times> clock" where
  "process_delay_resp e p c m =
     (case delay_req p of
        None \<Rightarrow> (p, c)
      | Some req \<Rightarrow>
          if state p \<noteq> PS_UNCALIBRATED \<and> state p \<noteq> PS_SLAVE then (p, c)
          else if \<not> pid_eq (requestingPortIdentity (delay_resp m))
                            (sourcePortIdentity (header req)) then (p, c)
          else if sequenceId (header m) \<noteq> ntohs e (sequenceId (header req)) then (p, c)
          else
            (let c1 = clock_path_delay c (hwts_ts (hwts req)) (ts_pdu m)
                        (correction (header m))
             in if logMinDelayReqInterval p \<noteq> logMessageInterval (header m)
                then (p\<lparr>logMinDelayReqInterval := logMessageInterval (header m)\<rparr>, c1)
                else (p, c1)))"

section \<open>Port initialization\<close>

definition LOG_MIN_DELAY_REQ_INTERVAL :: "8 word" where
  "LOG_MIN_DELAY_REQ_INTERVAL = 0"

definition LOG_ANNOUNCE_INTERVAL :: "8 word" where
  "LOG_ANNOUNCE_INTERVAL = 1"

definition ANNOUNCE_RECEIPT_TIMEOUT :: "8 word" where
  "ANNOUNCE_RECEIPT_TIMEOUT = 3"

definition LOG_SYNC_INTERVAL :: "8 word" where
  "LOG_SYNC_INTERVAL = 0"

definition LOG_MIN_PDELAY_REQ_INTERVAL :: "8 word" where
  "LOG_MIN_PDELAY_REQ_INTERVAL = 2"

text \<open>Modelled from the spec: the transport's \<open>close\<close> releases the descriptors the
  transport opened.\<close>

definition transport_close :: "sys \<Rightarrow> fdarray \<Rightarrow> sys" where
  "transport_close k f = close_fd (close_fd k (fd f FD_EVENT)) (fd f FD_GENERAL)"

definition port_initialize ::
  "env \<Rightarrow> port \<Rightarrow> clock \<Rightarrow> sys \<Rightarrow> (int \<times> port \<times> clock \<times> sys) option" where
  "port_initialize e p c k =
     (let p1 = p\<lparr>logMinDelayReqInterval := LOG_MIN_DELAY_REQ_INTERVAL,
                 peerMeanPathDelay := 0,
                 logAnnounceInterval := LOG_ANNOUNCE_INTERVAL,
                 announceReceiptTimeout := ANNOUNCE_RECEIPT_TIMEOUT,
                 logSyncInterval := LOG_SYNC_INTERVAL,
                 logMinPdelayReqInterval := LOG_MIN_PDELAY_REQ_INTERVAL\<rparr>;
          fd1 = tfd_create1 e;
          fd2 = tfd_create2 e
      in if fd1 < 0 then Some (- 1, p1, c, k)
         else if fd2 < 0 then Some (- 1, p1, c, close_fd k fd1)
         else
           (let (st, f1) = tr_open e (fda p1);
                p2 = p1\<lparr>fda := f1\<rparr>
            in if st \<noteq> 0 then Some (- 1, p2, c, close_fd (close_fd k fd2) fd1)
               else
                 (let f2 = f1\<lparr>fd := (fd f1)(FD_ANNOUNCE_TIMER := fd1, FD_DELAY_TIMER := fd2),
                              cnt := cnt f1 + 2\<rparr>;
                      p3 = p2\<lparr>fda := f2\<rparr>
                  in (case port_set_announce_tmo e p3 k of
                        None \<Rightarrow> None
                      | Some (r, k1) \<Rightarrow>
                          if r \<noteq> 0
                          then Some (- 1, p3, c,
                                 close_fd (close_fd (transport_close k1 f2) fd2) fd1)
                          else Some (0, p3, clock_install_fda c p3, k1)))))"

section \<open>Announce messages\<close>

text \<open>\<open>fc = p->best\<close> is dereferenced at once: a null \<open>best\<close> is undefined behaviour.
  A position beyond the table stands for no pointer the program can hold.\<close>

definition update_current_master ::
  "env \<Rightarrow> port \<Rightarrow> ptp_message \<Rightarrow> sys \<Rightarrow> (bool \<times> port \<times> sys) option" where
  "update_current_master e p m k =
     (case best p of
        None \<Rightarrow> None
      | Some b \<Rightarrow>
          if length (foreign_masters p) \<le> b then None
          else if \<not> msg_source_equal m (foreign_masters p ! b)
          then map_option (\<lambda>(r, p1). (r, p1, k)) (add_foreign_master e p m)
          else
            (case port_set_announce_tmo e p k of
               None \<Rightarrow> None
             | Some (r, k1) \<Rightarrow>
                 (case fc_prune (now e) (foreign_masters p ! b) of
                    None \<Rightarrow> None
                  | Some fc0 \<Rightarrow>
                      (let fc1 = fc_add fc0 m;
                           p1 = p\<lparr>foreign_masters := (foreign_masters p)[b := fc1]\<rparr>
                       in if 1 < n_messages fc1
                          then map_option (\<lambda>diff. (diff, p1, k1)) (compare_with_next fc1)
                          else Some (False, p1, k1)))))"

definition port_best_foreign :: "port \<Rightarrow> dataset option" where
  "port_best_foreign p =
     (case best p of None \<Rightarrow> None | Some b \<Rightarrow> Some (fc_dataset (foreign_masters p ! b)))"

definition process_announce ::
  "env \<Rightarrow> port \<Rightarrow> ptp_message \<Rightarrow> sys \<Rightarrow> (bool \<times> port \<times> sys) option" where
  "process_announce e p m k =
     (case state p of
        PS_INITIALIZING \<Rightarrow> Some (False, p, k)
      | PS_FAULTY \<Rightarrow> Some (False, p, k)
      | PS_DISABLED \<Rightarrow> Some (False, p, k)
      | PS_UNCALIBRATED \<Rightarrow> update_current_master e p m k
      | PS_SLAVE \<Rightarrow> update_current_master e p m k
      | _ \<Rightarrow> map_option (\<lambda>(r, p1). (r, p1, k)) (add_foreign_master e p m))"

section \<open>Selection of the best foreign master\<close>

text \<open>The body of the loop of \<open>port_compute_best\<close>, for the record \<open>fc\<close>: \<open>seen\<close>
  are the records already visited (as the loop left them), \<open>b\<close> is \<open>p->best\<close>, a
  position in \<open>seen\<close>; the result is the record as the body leaves it and the new
  \<open>p->best\<close>.  \<open>dscmp\<close> of bmc.c is not part of the sources and is the parameter
  \<open>cmp\<close>; \<open>nw\<close> is what \<open>clock_gettime\<close> reads inside \<open>fc_prune\<close>.  \<open>tmp\<close> is taken
  before \<open>fc_prune\<close>; were the queue empty afterwards, \<open>tmp\<close> would have been
  released.\<close>

definition port_compute_best_body ::
  "(dataset \<Rightarrow> dataset \<Rightarrow> int) \<Rightarrow> timespec \<Rightarrow> clock \<Rightarrow> foreign_clock list \<Rightarrow>
   nat option \<Rightarrow> foreign_clock \<Rightarrow> (foreign_clock \<times> nat option) option" where
  "port_compute_best_body cmp nw c seen b fc =
     (case messages fc of
        [] \<Rightarrow> Some (fc, b)
      | tmp # _ \<Rightarrow>
          (case fc_prune nw fc of
             None \<Rightarrow> None
           | Some fc1 \<Rightarrow>
               if n_messages fc1 < FOREIGN_MASTER_THRESHOLD then Some (fc1, b)
               else if messages fc1 = [] then None
               else
                 (let fc2 = fc1\<lparr>fc_dataset := announce_to_dataset tmp c (fc_dataset fc1)\<rparr>
                  in (case b of
                        None \<Rightarrow> Some (fc2, Some (length seen))
                      | Some j \<Rightarrow>
                          if 0 < cmp (fc_dataset fc2) (fc_dataset (seen ! j))
                          then Some (fc2, Some (length seen))
                          else map_option (\<lambda>fc3. (fc3, b)) (fc_clear fc2)))))"

text \<open>\<open>LIST_FOREACH(fc, &p->foreign_masters, list)\<close>; \<open>nows i\<close> is the time read when
  the record at position \<open>i\<close> is visited.\<close>

fun port_compute_best_loop ::
  "(dataset \<Rightarrow> dataset \<Rightarrow> int) \<Rightarrow> (nat \<Rightarrow> timespec) \<Rightarrow> clock \<Rightarrow> foreign_clock list \<Rightarrow>
   nat option \<Rightarrow> foreign_clock list \<Rightarrow> (foreign_clock list \<times> nat option) option" where
  "port_compute_best_loop cmp nows c seen b [] = Some (seen, b)"
| "port_compute_best_loop cmp nows c seen b (fc # rest) =
     (case port_compute_best_body cmp (nows (length seen)) c seen b fc of
        None \<Rightarrow> None
      | Some (fc1, b1) \<Rightarrow> port_compute_best_loop cmp nows c (seen @ [fc1]) b1 rest)"

definition port_compute_best ::
  "(dataset \<Rightarrow> dataset \<Rightarrow> int) \<Rightarrow> (nat \<Rightarrow> timespec) \<Rightarrow> clock \<Rightarrow> port \<Rightarrow>
   (nat option \<times> port) option" where
  "port_compute_best cmp nows c p =
     (case port_compute_best_loop cmp nows c [] None (foreign_masters p) of
        None \<Rightarrow> None
      | Some (fms, b) \<Rightarrow> Some (b, p\<lparr>best := b, foreign_masters := fms\<rparr>))"

section \<open>State machine driver\<close>

text \<open>The timer policy of the \<open>switch (next)\<close> in \<open>port_dispatch\<close>.\<close>

definition clr_both :: "env \<Rightarrow> port \<Rightarrow> sys \<Rightarrow> sys" where
  "clr_both e p k =
     snd (port_clr_tmo e (snd (port_clr_tmo e k (fd (fda p) FD_ANNOUNCE_TIMER)))
            (fd (fda p) FD_DELAY_TIMER))"

definition set_announce_clr_delay :: "env \<Rightarrow> port \<Rightarrow> sys \<Rightarrow> sys option" where
  "set_announce_clr_delay e p k =
     map_option (\<lambda>(r, k1). snd (port_clr_tmo e k1 (fd (fda p) FD_DELAY_TIMER)))
       (port_set_announce_tmo e p k)"

definition set_both :: "env \<Rightarrow> port \<Rightarrow> sys \<Rightarrow> sys option" where
  "set_both e p k =
     Option.bind (port_set_announce_tmo e p k) (\<lambda>(r, k1).
       map_option snd (port_set_delay_tmo e p k1))"

definition dispatch_timers :: "env \<Rightarrow> port \<Rightarrow> sys \<Rightarrow> port_state \<Rightarrow> sys option" where
  "dispatch_timers e p k next =
     (case next of
        PS_INITIALIZING \<Rightarrow> Some (clr_both e p k)
      | PS_FAULTY \<Rightarrow> Some (clr_both e p k)
      | PS_DISABLED \<Rightarrow> Some (clr_both e p k)
      | PS_LISTENING \<Rightarrow> set_announce_clr_delay e p k
      | PS_PRE_MASTER \<Rightarrow> Some (clr_both e p k)
      | PS_MASTER \<Rightarrow> Some (clr_both e p k)
      | PS_GRAND_MASTER \<Rightarrow> Some (clr_both e p k)
      | PS_PASSIVE \<Rightarrow> set_announce_clr_delay e p k
      | PS_UNCALIBRATED \<Rightarrow> set_both e p k
      | PS_SLAVE \<Rightarrow> set_both e p k)"

text \<open>\<open>ptp_fsm\<close> of fsm.c is not part of the sources: it is the parameter \<open>fsm\<close>.\<close>

definition port_dispatch ::
  "(port_state \<Rightarrow> fsm_event \<Rightarrow> port_state) \<Rightarrow> env \<Rightarrow> port \<Rightarrow> clock \<Rightarrow> sys \<Rightarrow> fsm_event \<Rightarrow>
   (port \<times> clock \<times> sys) option" where
  "port_dispatch fsm e p c k event =
     (let next = fsm (state p) event
      in if PS_INITIALIZING = next
         then (case port_initialize e p c k of
                 None \<Rightarrow> None
               | Some (r, p1, c1, k1) \<Rightarrow>
                   Some (p1\<lparr>state := (if r \<noteq> 0 then PS_FAULTY else PS_LISTENING)\<rparr>, c1, k1))
         else if next = state p then Some (p, c, k)
         else map_option (\<lambda>k1. (p\<lparr>state := next\<rparr>, c, k1)) (dispatch_timers e p k next))"

section \<open>Event dispatcher\<close>

definition clear_best :: "port \<Rightarrow> port option" where
  "clear_best p =
     (case best p of
        None \<Rightarrow> Some p
      | Some b \<Rightarrow>
          if length (foreign_masters p) \<le> b then None
          else map_option (\<lambda>fc. p\<lparr>foreign_masters := (foreign_masters p)[b := fc]\<rparr>)
                 (fc_clear (foreign_masters p ! b)))"

definition port_event ::
  "env \<Rightarrow> port \<Rightarrow> clock \<Rightarrow> sys \<Rightarrow> fd_index \<Rightarrow> (fsm_event \<times> port \<times> clock \<times> sys) option" where
  "port_event e p c k fd_index =
     (case fd_index of
        FD_ANNOUNCE_TIMER \<Rightarrow>
          Option.bind (clear_best p) (\<lambda>p1.
          Option.bind (port_set_announce_tmo e p1 k) (\<lambda>(r, k1).
          Some (EV_ANNOUNCE_RECEIPT_TIMEOUT_EXPIRES, p1, c, k1)))
      | FD_DELAY_TIMER \<Rightarrow>
          Option.bind (port_set_delay_tmo e p k) (\<lambda>(r, k1).
            (let (err, p1, k2) = port_delay_request e p c k1
             in Some (if err \<noteq> 0 then EV_FAULT_DETECTED else EV_NONE, p1, c, k2)))
      | _ \<Rightarrow>
          if \<not> alloc_rx e then Some (EV_FAULT_DETECTED, p, c, k)
          else if rx_cnt e \<le> 0 then Some (EV_FAULT_DETECTED, p, c, k)
          else if rx_post e \<noteq> 0 then Some (EV_NONE, p, c, k)
          else
            (let msg = rx_msg e
             in (case msg_type msg of
                   SYNC \<Rightarrow>
                     (let (p1, c1) = process_sync p c msg in Some (EV_NONE, p1, c1, k))
                 | DELAY_REQ \<Rightarrow>
                     (let (err, k1) = process_delay_req e p msg k in Some (EV_NONE, p, c, k1))
                 | FOLLOW_UP \<Rightarrow>
                     (let (p1, c1) = process_follow_up p c msg in Some (EV_NONE, p1, c1, k))
                 | DELAY_RESP \<Rightarrow>
                     (let (p1, c1) = process_delay_resp e p c msg in Some (EV_NONE, p1, c1, k))
                 | ANNOUNCE \<Rightarrow>
                     map_option
                       (\<lambda>(r, p1, k1).
                          (if r then EV_STATE_DECISION_EVENT else EV_NONE, p1, c, k1))
                       (process_announce e p msg k)
                 | _ \<Rightarrow> Some (EV_NONE, p, c, k))))"

section \<open>Opening a port\<close>

definition zero_port :: port where
  "zero_port =
     \<lparr>name = [], timestamping = TS_SOFTWARE,
      fda = \<lparr>cnt = 0, fd = (\<lambda>i. 0)\<rparr>,
      best = None, last_follow_up = None, last_sync = None, delay_req = None,
      seqnum = 0, portIdentity = zero_pid, state = PS_INITIALIZING,
      logMinDelayReqInterval = 0, peerMeanPathDelay = 0, logAnnounceInterval = 0,
      announceReceiptTimeout = 0, logSyncInterval = 0, delayMechanism = 0,
      logMinPdelayReqInterval = 0, versionNumber = 0, foreign_masters = []\<rparr>"

text \<open>\<open>transport_find\<close> is not part of the sources: \<open>found\<close> says whether it returned
  a transport.\<close>

definition port_open ::
  "env \<Rightarrow> string \<Rightarrow> bool \<Rightarrow> timestamp_type \<Rightarrow> 16 word \<Rightarrow> 8 word \<Rightarrow> clock \<Rightarrow> port option" where
  "port_open e nm found tst number dm c =
     (if \<not> malloc_ok e then None
      else if \<not> found then None
      else Some (zero_port
             \<lparr>name := nm,
              timestamping := tst,
              portIdentity := \<lparr>clockIdentity = clock_identity c, portNumber = number\<rparr>,
              state := PS_INITIALIZING,
              delayMechanism := dm,
              versionNumber := 2\<rparr>))"

definition port_state_of :: "port \<Rightarrow> port_state" where
  "port_state_of p = state p"

section \<open>Scenarios\<close>

text \<open>The two orders in which a Sync and its Follow_Up can reach a port.\<close>

definition sync_then_follow_up ::
  "port \<Rightarrow> clock \<Rightarrow> ptp_message \<Rightarrow> ptp_message \<Rightarrow> port \<times> clock" where
  "sync_then_follow_up p c syn fup =
     (let (p1, c1) = process_sync p c syn in process_follow_up p1 c1 fup)"

definition follow_up_then_sync ::
  "port \<Rightarrow> clock \<Rightarrow> ptp_message \<Rightarrow> ptp_message \<Rightarrow> port \<times> clock" where
  "follow_up_then_sync p c syn fup =
     (let (p1, c1) = process_follow_up p c fup in process_sync p1 c1 syn)"

text \<open>A retained message slot holds no message with sequence number \<open>s\<close>.\<close>

definition no_retained :: "ptp_message option \<Rightarrow> 16 word \<Rightarrow> bool" where
  "no_retained slot s = (case slot of None \<Rightarrow> True | Some x \<Rightarrow> sequenceId (header x) \<noteq> s)"

text \<open>The four conditions under which a Delay_Resp is taken, as the specification
  lists them.\<close>

definition delay_resp_accepted :: "env \<Rightarrow> port \<Rightarrow> ptp_message \<Rightarrow> bool" where
  "delay_resp_accepted e p m =
     (case delay_req p of
        None \<Rightarrow> False
      | Some req \<Rightarrow>
          (state p = PS_UNCALIBRATED \<or> state p = PS_SLAVE)
          \<and> requestingPortIdentity (delay_resp m) = sourcePortIdentity (header req)
          \<and> sequenceId (header m) = ntohs e (sequenceId (header req)))"

subsection \<open>Concrete values\<close>

definition master_pid :: PortIdentity where
  "master_pid = \<lparr>clockIdentity = 1, portNumber = 1\<rparr>"

definition own_pid :: PortIdentity where
  "own_pid = \<lparr>clockIdentity = 7, portNumber = 1\<rparr>"

definition demo_clock :: clock where
  "demo_clock =
     \<lparr>clock_ident = 7, parent_identity = master_pid, domain_number = 0, calls = []\<rparr>"

definition demo_port :: "port_state \<Rightarrow> port" where
  "demo_port st = zero_port\<lparr>portIdentity := own_pid, state := st\<rparr>"

definition demo_msg :: "message_type \<Rightarrow> PortIdentity \<Rightarrow> 16 word \<Rightarrow> ptp_message" where
  "demo_msg ty src s =
     zero_message\<lparr>header := (header zero_message)
       \<lparr>tsmt := ty, sourcePortIdentity := src, sequenceId := s\<rparr>\<rparr>"

definition at_sec :: "64 word \<Rightarrow> timespec" where
  "at_sec s = \<lparr>tv_sec = s, tv_nsec = 0\<rparr>"

definition one_step_sync :: ptp_message where
  "one_step_sync = (demo_msg SYNC master_pid 42)
     \<lparr>hwts := \<lparr>hwts_type = TS_HARDWARE, hwts_ts = at_sec 100\<rparr>,
      ts_pdu := \<lparr>sec = 90, nsec = 0\<rparr>\<rparr>"

definition two_step_sync :: "64 word \<Rightarrow> ptp_message" where
  "two_step_sync t = (demo_msg SYNC master_pid 42)
     \<lparr>header := (header (demo_msg SYNC master_pid 42))\<lparr>flagField0 := 2\<rparr>,
      hwts := \<lparr>hwts_type = TS_HARDWARE, hwts_ts = at_sec t\<rparr>\<rparr>"

definition follow_up_42 :: ptp_message where
  "follow_up_42 = (demo_msg FOLLOW_UP master_pid 42)
     \<lparr>header := (header (demo_msg FOLLOW_UP master_pid 42))\<lparr>correction := 3\<rparr>,
      ts_pdu := \<lparr>sec = 90, nsec = 0\<rparr>\<rparr>"

text \<open>The Follow_Up of a second pair that carries sequence number 42 again, and the
  port and clock after a first pair (Sync with ingress time 50, then its
  Follow_Up) has been delivered to a fresh port in SLAVE.\<close>

definition second_follow_up :: ptp_message where
  "second_follow_up = (demo_msg FOLLOW_UP master_pid 42)
     \<lparr>header := (header (demo_msg FOLLOW_UP master_pid 42))\<lparr>correction := 4\<rparr>,
      ts_pdu := \<lparr>sec = 99, nsec = 0\<rparr>\<rparr>"

definition after_first_pair :: "port \<times> clock" where
  "after_first_pair =
     sync_then_follow_up (demo_port PS_SLAVE) demo_clock (two_step_sync 50) follow_up_42"

text \<open>A little-endian host on which every collaborator succeeds; \<open>msg_pre_send\<close>
  puts the sequence number into network byte order.\<close>

definition demo_pre_send :: "ptp_message \<Rightarrow> int \<times> ptp_message" where
  "demo_pre_send m =
     (0, m\<lparr>header := (header m)\<lparr>sequenceId := bswap16 (sequenceId (header m))\<rparr>\<rparr>)"

definition demo_env :: env where
  "demo_env =
     \<lparr>host_le = True, malloc_ok = True, alloc_rx = True, alloc_tx = True,
      rx_cnt = 64, rx_msg = zero_message, rx_post = 0,
      msg_pre_send = demo_pre_send,
      send_cnt = 44,
      send_hwts = \<lparr>hwts_type = TS_HARDWARE, hwts_ts = at_sec 200\<rparr>,
      settime_ret = (\<lambda>f. 0), tfd_create1 = 5, tfd_create2 = 6,
      tr_open = (\<lambda>f. (0, f\<lparr>cnt := 2, fd := (fd f)(FD_EVENT := 3, FD_GENERAL := 4)\<rparr>)),
      now = at_sec 10\<rparr>"

definition demo_sys :: sys where
  "demo_sys = \<lparr>timers = (\<lambda>f. 0), sent = [], closed = []\<rparr>"

text \<open>The outstanding Delay_Req with sequence number 7, as stored after
  \<open>msg_pre_send\<close>, and a response to it.\<close>

definition stored_delay_req :: ptp_message where
  "stored_delay_req = (demo_msg DELAY_REQ own_pid (bswap16 7))
     \<lparr>hwts := \<lparr>hwts_type = TS_HARDWARE, hwts_ts = at_sec 200\<rparr>\<rparr>"

definition delay_resp_for :: "16 word \<Rightarrow> ptp_message" where
  "delay_resp_for s = (demo_msg DELAY_RESP master_pid s)
     \<lparr>header := (header (demo_msg DELAY_RESP master_pid s))\<lparr>correction := 1\<rparr>,
      delay_resp := (delay_resp zero_message)\<lparr>requestingPortIdentity := own_pid\<rparr>,
      ts_pdu := \<lparr>sec = 210, nsec = 0\<rparr>\<rparr>"

definition waiting_port :: port where
  "waiting_port = (demo_port PS_SLAVE)\<lparr>delay_req := Some stored_delay_req\<rparr>"

text \<open>A transition function that answers one event (number 0 of the events port.c
  does not name, standing for the initialize event) with INITIALIZING and keeps the
  state on every other event.\<close>

definition init_fsm :: "port_state \<Rightarrow> fsm_event \<Rightarrow> port_state" where
  "init_fsm s ev = (case ev of EV_OTHER n \<Rightarrow> if n = 0 then PS_INITIALIZING else s | _ \<Rightarrow> s)"

text \<open>A Delay_Req whose ingress time is \<open>2^32\<close> seconds, and a host on which a
  received Delay_Req is answered but the transport fails to send.\<close>

definition late_delay_req :: ptp_message where
  "late_delay_req = (demo_msg DELAY_REQ master_pid 9)
     \<lparr>hwts := \<lparr>hwts_type = TS_HARDWARE, hwts_ts = at_sec 0x100000000\<rparr>\<rparr>"

definition send_fails_env :: env where
  "send_fails_env = demo_env\<lparr>rx_msg := demo_msg DELAY_REQ master_pid 9, send_cnt := - 1\<rparr>"

text \<open>The octets of a 16 bit and of a 32 bit field as they lie in the memory of the
  host, and so on the wire, lowest address first.\<close>

definition mem16 :: "env \<Rightarrow> 16 word \<Rightarrow> 8 word list" where
  "mem16 e w = (if host_le e then [ucast w, ucast (drop_bit 8 w)]
                else [ucast (drop_bit 8 w), ucast w])"

definition mem32 :: "env \<Rightarrow> 32 word \<Rightarrow> 8 word list" where
  "mem32 e w =
     (if host_le e
      then [ucast w, ucast (drop_bit 8 w), ucast (drop_bit 16 w), ucast (drop_bit 24 w)]
      else [ucast (drop_bit 24 w), ucast (drop_bit 16 w), ucast (drop_bit 8 w), ucast w])"

subsection \<open>Invariants of the foreign master table\<close>

text \<open>The counter of a record is the length of its queue.\<close>

definition fc_ok :: "foreign_clock \<Rightarrow> bool" where
  "fc_ok fc = (unat (n_messages fc) = length (messages fc))"

text \<open>Every record of the port counts its queue, which holds at most
  \<open>FOREIGN_MASTER_THRESHOLD + 1\<close> messages.\<close>

definition port_ok :: "port \<Rightarrow> bool" where
  "port_ok p =
     list_all (\<lambda>fc. fc_ok fc \<and> n_messages fc \<le> FOREIGN_MASTER_THRESHOLD + 1)
       (foreign_masters p)"

text \<open>An Announce of a sender, captured at host time \<open>t\<close> seconds, with announce
  interval \<open>2^1\<close> seconds and the given first priority; a record of a sender with a
  given counter and queue; a port whose table is the given list.\<close>

definition announce_from :: "PortIdentity \<Rightarrow> 64 word \<Rightarrow> 8 word \<Rightarrow> ptp_message" where
  "announce_from src t pr = (demo_msg ANNOUNCE src 0)
     \<lparr>header := (header (demo_msg ANNOUNCE src 0))\<lparr>logMessageInterval := 1\<rparr>,
      announce := (announce zero_message)\<lparr>grandmasterPriority1 := pr\<rparr>,
      ts_host := at_sec t\<rparr>"

definition demo_fc :: "PortIdentity \<Rightarrow> 32 word \<Rightarrow> ptp_message list \<Rightarrow> foreign_clock" where
  "demo_fc src n ms =
     \<lparr>fc_dataset = zero_dataset\<lparr>sender := src\<rparr>, messages = ms, n_messages = n\<rparr>"

definition table_port :: "port_state \<Rightarrow> nat option \<Rightarrow> foreign_clock list \<Rightarrow> port" where
  "table_port st b fms = (demo_port st)\<lparr>best := b, foreign_masters := fms\<rparr>"

definition other_pid :: PortIdentity where
  "other_pid = \<lparr>clockIdentity = 2, portNumber = 1\<rparr>"

text \<open>A port in SLAVE whose best master has two current Announce messages queued,
  and a host that receives a third one at time 10.\<close>

definition steady_port :: port where
  "steady_port = table_port PS_SLAVE (Some 0)
     [demo_fc master_pid 2 [announce_from master_pid 8 128, announce_from master_pid 6 128]]"

definition announce_env :: env where
  "announce_env = demo_env\<lparr>rx_msg := announce_from master_pid 10 128\<rparr>"

text \<open>A table of three masters, each with two current Announce messages, of first
  priorities 128, 100 and 120, and a fourth that has sent one message.\<close>

definition third_pid :: PortIdentity where
  "third_pid = \<lparr>clockIdentity = 3, portNumber = 1\<rparr>"

definition fourth_pid :: PortIdentity where
  "fourth_pid = \<lparr>clockIdentity = 4, portNumber = 1\<rparr>"


subsection \<open>Notions for the selection of the best foreign master\<close>

text \<open>A record qualifies at time \<open>nw\<close> when, pruned at that time, it holds at least
  \<open>FOREIGN_MASTER_THRESHOLD\<close> messages.\<close>

definition qualifies :: "timespec \<Rightarrow> foreign_clock \<Rightarrow> bool" where
  "qualifies nw fc =
     (case fc_prune nw fc of
        None \<Rightarrow> False
      | Some fc1 \<Rightarrow> FOREIGN_MASTER_THRESHOLD \<le> n_messages fc1)"




text \<open>A comparison by the first priority alone (the smaller value is better).\<close>

definition by_priority1 :: "dataset \<Rightarrow> dataset \<Rightarrow> int" where
  "by_priority1 a b =
     (if priority1 a < priority1 b then 1 else if priority1 b < priority1 a then - 1 else 0)"


section \<open>Facts about the message processors\<close>

lemmas demo_defs = master_pid_def own_pid_def demo_clock_def demo_port_def demo_msg_def
  at_sec_def one_step_sync_def two_step_sync_def follow_up_42_def zero_port_def
  second_follow_up_def
  zero_message_def zero_pid_def zero_timespec_def demo_env_def demo_sys_def
  stored_delay_req_def delay_resp_for_def waiting_port_def demo_pre_send_def
  announce_from_def demo_fc_def table_port_def other_pid_def zero_dataset_def
  steady_port_def announce_env_def third_pid_def fourth_pid_def

lemmas c_arith_defs = chk32_def chk64_def shl1_def NSEC2SEC_def

lemmas prune_defs = fc_prune_def fc_prune_excess.simps fc_prune_stale.simps
  msg_current_def drop_last_def FOREIGN_MASTER_THRESHOLD_def

lemma demo_sel:
  "sourcePortIdentity (header (announce_from s t pr)) = s"
  "msg_type (announce_from s t pr) = ANNOUNCE"
  "sender (fc_dataset (demo_fc s n ms)) = s"
  "messages (demo_fc s n ms) = ms"
  "n_messages (demo_fc s n ms) = n"
  "fc_add (demo_fc s n ms) m = demo_fc s (n + 1) (m # ms)"
  "foreign_masters (table_port st b fms) = fms"
  "best (table_port st b fms) = b"
  "state (table_port st b fms) = st"
  "(table_port st b fms)\<lparr>foreign_masters := fms'\<rparr> = table_port st b fms'"
  "logAnnounceInterval (table_port st b fms) = 0"
  "announceReceiptTimeout (table_port st b fms) = 0"
  "announce_compare (announce_from s t pr) (announce_from s' t' pr') = (pr \<noteq> pr')"
  by (simp_all add: announce_from_def demo_msg_def demo_fc_def table_port_def fc_add_def
      msg_type_def demo_port_def zero_port_def announce_compare_def zero_message_def)

lemma announce_env_sel:
  "now announce_env = at_sec 10" "rx_msg announce_env = announce_from master_pid 10 128"
  "alloc_rx announce_env" "rx_cnt announce_env = 64" "rx_post announce_env = 0"
  "malloc_ok announce_env" "settime_ret announce_env = (\<lambda>f. 0)"
  by (simp_all add: announce_env_def demo_env_def)

text \<open>
  C5.  A one-step Sync from the parent, received in UNCALIBRATED or SLAVE, makes
  \<open>process_sync\<close> call \<open>clock_synchronize\<close> once, with the ingress time \<open>m->hwts.ts\<close>
  (t2), the origin time \<open>m->ts.pdu\<close> (t1), the correction of the message (c1) and 0
  (c2); the port is left as it was, nothing is retained.
\<close>

theorem process_sync_one_step:
  assumes "state p = PS_UNCALIBRATED \<or> state p = PS_SLAVE"
    and "sourcePortIdentity (header m) = clock_parent_identity c"
    and "one_step m"
  shows "process_sync p c m =
           (p, c\<lparr>calls := calls c @
                 [Synchronize (hwts_ts (hwts m)) (ts_pdu m) (correction (header m)) 0]\<rparr>)"
  using assms by (auto simp: process_sync_def clock_synchronize_def)

theorem process_sync_one_step_witness:
  "state (demo_port PS_SLAVE) = PS_SLAVE
   \<and> sourcePortIdentity (header one_step_sync) = clock_parent_identity demo_clock
   \<and> one_step one_step_sync
   \<and> process_sync (demo_port PS_SLAVE) demo_clock one_step_sync =
       (demo_port PS_SLAVE,
        demo_clock\<lparr>calls := [Synchronize (at_sec 100) \<lparr>sec = 90, nsec = 0\<rparr> 0 0]\<rparr>)"
  using process_sync_one_step [of "demo_port PS_SLAVE" one_step_sync demo_clock]
  by (simp add: demo_defs one_step_def clock_parent_identity_def)

text \<open>
  When neither \<open>last_sync\<close> nor \<open>last_follow_up\<close> holds a message with the sequence
  number of the pair, the two processors reconcile a two-step Sync and its
  Follow_Up in either order with one call of \<open>clock_synchronize\<close>.
\<close>

lemma fresh_pair_either_order:
  assumes st: "state p = PS_UNCALIBRATED \<or> state p = PS_SLAVE"
    and src_s: "sourcePortIdentity (header syn) = clock_parent_identity c"
    and src_f: "sourcePortIdentity (header fup) = clock_parent_identity c"
    and two: "\<not> one_step syn"
    and seq: "sequenceId (header syn) = sequenceId (header fup)"
    and ns: "no_retained (last_sync p) (sequenceId (header syn))"
    and nf: "no_retained (last_follow_up p) (sequenceId (header syn))"
  shows "calls (snd (sync_then_follow_up p c syn fup)) =
           calls c @ [Synchronize (hwts_ts (hwts syn)) (ts_pdu fup)
                        (correction (header syn)) (correction (header fup))]
       \<and> calls (snd (follow_up_then_sync p c syn fup)) =
           calls c @ [Synchronize (hwts_ts (hwts syn)) (ts_pdu fup)
                        (correction (header syn)) (correction (header fup))]"
proof -
  from nf st src_s two have s1: "process_sync p c syn = (p\<lparr>last_sync := Some syn\<rparr>, c)"
    by (auto simp: process_sync_def no_retained_def split: option.splits)
  from ns st src_f seq have f1:
    "process_follow_up p c fup = (p\<lparr>last_follow_up := Some fup\<rparr>, c)"
    by (auto simp: process_follow_up_def no_retained_def split: option.splits)
  from st src_s src_f seq have f2:
    "process_follow_up (p\<lparr>last_sync := Some syn\<rparr>) c fup =
       (p\<lparr>last_sync := Some syn\<rparr>,
        clock_synchronize c (hwts_ts (hwts syn)) (ts_pdu fup)
          (correction (header syn)) (correction (header fup)))"
    by (auto simp: process_follow_up_def)
  from st src_s two seq have s2:
    "process_sync (p\<lparr>last_follow_up := Some fup\<rparr>) c syn =
       (p\<lparr>last_follow_up := Some fup\<rparr>,
        clock_synchronize c (hwts_ts (hwts syn)) (ts_pdu fup)
          (correction (header syn)) (correction (header fup)))"
    by (auto simp: process_sync_def)
  show ?thesis
    by (simp add: sync_then_follow_up_def follow_up_then_sync_def s1 f1 f2 s2
        clock_synchronize_def)
qed

text \<open>
  C1 at the failing input.  \<open>process_follow_up\<close> pairs a Follow_Up with whatever
  Sync \<open>last_sync\<close> holds under the same sequence number, also one that has already
  been consumed, since neither processor clears its slot.  A fresh port in SLAVE
  receives a first pair with sequence number 42 (Sync with ingress time 50, then
  its Follow_Up): one call, and the Sync stays in \<open>last_sync\<close>.  A second pair with
  sequence number 42 (Sync with ingress time 100, Follow_Up with origin time 99)
  then gives, Sync first, the call with ingress time 100, but, Follow_Up first, a
  call with the ingress time 50 of the first Sync; the same happens from a port
  that merely retains the earlier Sync.
\<close>

theorem sync_follow_up_stale_pairing:
  "state (fst after_first_pair) = PS_SLAVE
   \<and> last_sync (fst after_first_pair) = Some (two_step_sync 50)
   \<and> calls (snd after_first_pair) = [Synchronize (at_sec 50) \<lparr>sec = 90, nsec = 0\<rparr> 0 3]
   \<and> sourcePortIdentity (header (two_step_sync 100))
       = clock_parent_identity (snd after_first_pair)
   \<and> sourcePortIdentity (header second_follow_up)
       = clock_parent_identity (snd after_first_pair)
   \<and> \<not> one_step (two_step_sync 100)
   \<and> sequenceId (header (two_step_sync 100)) = sequenceId (header second_follow_up)
   \<and> calls (snd (sync_then_follow_up (fst after_first_pair) (snd after_first_pair)
                   (two_step_sync 100) second_follow_up))
       = [Synchronize (at_sec 50) \<lparr>sec = 90, nsec = 0\<rparr> 0 3,
          Synchronize (at_sec 100) \<lparr>sec = 99, nsec = 0\<rparr> 0 4]
   \<and> calls (snd (follow_up_then_sync (fst after_first_pair) (snd after_first_pair)
                   (two_step_sync 100) second_follow_up))
       = [Synchronize (at_sec 50) \<lparr>sec = 90, nsec = 0\<rparr> 0 3,
          Synchronize (at_sec 50) \<lparr>sec = 99, nsec = 0\<rparr> 0 4]
   \<and> calls (snd (sync_then_follow_up
        ((demo_port PS_SLAVE)\<lparr>last_sync := Some (two_step_sync 50)\<rparr>)
        demo_clock (two_step_sync 100) follow_up_42))
     = [Synchronize (at_sec 100) \<lparr>sec = 90, nsec = 0\<rparr> 0 3]
   \<and> calls (snd (follow_up_then_sync
        ((demo_port PS_SLAVE)\<lparr>last_sync := Some (two_step_sync 50)\<rparr>)
        demo_clock (two_step_sync 100) follow_up_42))
     = [Synchronize (at_sec 50) \<lparr>sec = 90, nsec = 0\<rparr> 0 3]"
  by (simp add: after_first_pair_def demo_defs one_step_def clock_parent_identity_def
      sync_then_follow_up_def follow_up_then_sync_def process_sync_def
      process_follow_up_def clock_synchronize_def)

lemma add_foreign_master_delay_req:
  "add_foreign_master e p m = Some (r, p1) \<Longrightarrow> delay_req p1 = delay_req p"
  unfolding add_foreign_master_def Let_def
  by (auto split: option.splits if_splits)

lemma update_current_master_delay_req:
  "update_current_master e p m k = Some (r, p1, k1) \<Longrightarrow> delay_req p1 = delay_req p"
  unfolding update_current_master_def Let_def
  by (auto split: option.splits if_splits dest: add_foreign_master_delay_req)

lemma process_announce_delay_req:
  "process_announce e p m k = Some (r, p1, k1) \<Longrightarrow> delay_req p1 = delay_req p"
  unfolding process_announce_def
  by (auto split: port_state.splits
      dest: add_foreign_master_delay_req update_current_master_delay_req)

lemma process_sync_delay_req:
  "delay_req (fst (process_sync p c m)) = delay_req p"
  unfolding process_sync_def
  by (auto split: port_state.splits option.splits if_splits)

lemma process_follow_up_delay_req:
  "delay_req (fst (process_follow_up p c m)) = delay_req p"
  unfolding process_follow_up_def
  by (auto split: port_state.splits option.splits if_splits)

lemma process_delay_resp_delay_req:
  "delay_req (fst (process_delay_resp e p c m)) = delay_req p"
  unfolding process_delay_resp_def Let_def
  by (auto split: option.splits if_splits)

lemma clear_best_delay_req:
  "clear_best p = Some p1 \<Longrightarrow> delay_req p1 = delay_req p"
  unfolding clear_best_def
  by (auto split: option.splits if_splits)

lemma port_delay_request_delay_req:
  "port_delay_request e p c k = (err, p1, k1) \<Longrightarrow>
     (err \<noteq> 0 \<longrightarrow> delay_req p1 = delay_req p) \<and> (err = 0 \<longrightarrow> 0 < send_cnt e)"
  unfolding port_delay_request_def Let_def transport_send_def
  by (auto split: if_splits prod.splits)

lemma port_initialize_delay_req:
  "port_initialize e p c k = Some (r, p1, c1, k1) \<Longrightarrow> delay_req p1 = delay_req p"
  unfolding port_initialize_def Let_def
  by (auto split: if_splits prod.splits option.splits)

lemma port_dispatch_delay_req:
  "port_dispatch fsm e p c k ev = Some (p1, c1, k1) \<Longrightarrow> delay_req p1 = delay_req p"
  unfolding port_dispatch_def Let_def
  by (auto split: if_splits prod.splits option.splits dest: port_initialize_delay_req)

lemma port_compute_best_delay_req:
  "port_compute_best cmp nows c p = Some (b, p1) \<Longrightarrow> delay_req p1 = delay_req p"
  unfolding port_compute_best_def
  by (auto split: option.splits)

lemma port_event_rx_delay_req:
  assumes "port_event e p c k i = Some (ev, p1, c1, k1)"
    and "i = FD_EVENT \<or> i = FD_GENERAL"
  shows "delay_req p1 = delay_req p"
proof -
  let ?m = "rx_msg e"
  have sy: "delay_req (fst (process_sync p c ?m)) = delay_req p"
    by (rule process_sync_delay_req)
  have fu: "delay_req (fst (process_follow_up p c ?m)) = delay_req p"
    by (rule process_follow_up_delay_req)
  have dr: "delay_req (fst (process_delay_resp e p c ?m)) = delay_req p"
    by (rule process_delay_resp_delay_req)
  from assms sy fu dr show ?thesis
    unfolding port_event_def Let_def
    by (auto split: if_splits message_type.splits prod.splits
        dest: process_announce_delay_req)
qed

lemma port_event_delay_req:
  assumes "port_event e p c k i = Some (ev, p1, c1, k1)"
    and "delay_req p1 \<noteq> delay_req p"
  shows "i = FD_DELAY_TIMER \<and> ev = EV_NONE \<and> 0 < send_cnt e"
proof (cases i)
  case FD_ANNOUNCE_TIMER
  with assms(1) have "clear_best p = Some p1"
    by (auto simp: port_event_def bind_eq_Some_conv)
  with assms(2) show ?thesis by (simp add: clear_best_delay_req)
next
  case FD_DELAY_TIMER
  with assms(1) obtain a k2 where
    "(case port_delay_request e p c k2 of
        (err, p1', k3) \<Rightarrow>
          Some (if err \<noteq> 0 then EV_FAULT_DETECTED else EV_NONE, p1', c, k3))
     = Some (ev, p1, c1, k1)"
    by (auto simp: port_event_def bind_eq_Some_conv Let_def)
  then obtain err where
    "port_delay_request e p c k2 = (err, p1, k1)"
    "ev = (if err \<noteq> 0 then EV_FAULT_DETECTED else EV_NONE)"
    by (cases "port_delay_request e p c k2") auto
  with port_delay_request_delay_req [of e p c k2 err p1 k1] assms(2) FD_DELAY_TIMER
  show ?thesis by auto
next
  case FD_EVENT
  with assms port_event_rx_delay_req [of e p c k i ev p1 c1 k1] show ?thesis by simp
next
  case FD_GENERAL
  with assms port_event_rx_delay_req [of e p c k i ev p1 c1 k1] show ?thesis by simp
qed

text \<open>
  C6.  \<open>process_delay_resp\<close> calls \<open>clock_path_delay\<close> only when a Delay_Req is
  outstanding, the port is in UNCALIBRATED or SLAVE, the requesting port identity of
  the response equals the source port identity of the stored request, and the
  sequence number of the response equals \<open>ntohs\<close> of the stored one; then it calls
  it with the egress time of the request, the receive time and the correction of
  the response.  When a condition fails, port and clock are returned unchanged.
\<close>

theorem process_delay_resp_gate:
  "(calls (snd (process_delay_resp e p c m)) \<noteq> calls c \<longrightarrow> delay_resp_accepted e p m)
   \<and> (\<not> delay_resp_accepted e p m \<longrightarrow> process_delay_resp e p c m = (p, c))
   \<and> (delay_resp_accepted e p m \<longrightarrow> delay_req p = Some req \<longrightarrow>
        calls (snd (process_delay_resp e p c m)) =
          calls c @ [Path_Delay (hwts_ts (hwts req)) (ts_pdu m) (correction (header m))])"
  by (auto simp: process_delay_resp_def delay_resp_accepted_def pid_eq_def Let_def
      clock_path_delay_def split: option.splits)

theorem process_delay_resp_gate_witness:
  "delay_resp_accepted demo_env waiting_port (delay_resp_for 7)
   \<and> delay_req waiting_port = Some stored_delay_req
   \<and> calls (snd (process_delay_resp demo_env waiting_port demo_clock (delay_resp_for 7)))
       = [Path_Delay (at_sec 200) \<lparr>sec = 210, nsec = 0\<rparr> 1]
   \<and> \<not> delay_resp_accepted demo_env waiting_port (delay_resp_for 8)
   \<and> process_delay_resp demo_env waiting_port demo_clock (delay_resp_for 8)
       = (waiting_port, demo_clock)"
  using process_delay_resp_gate
      [of demo_env waiting_port demo_clock "delay_resp_for 7" stored_delay_req]
    process_delay_resp_gate
      [of demo_env waiting_port demo_clock "delay_resp_for 8" stored_delay_req]
  by (simp add: demo_defs delay_resp_accepted_def ntohs_def bswap16_def)

text \<open>
  C10.  \<open>process_delay_resp\<close> never changes \<open>delay_req\<close>; a response that is taken
  is taken again when it is delivered a second time, and \<open>clock_path_delay\<close> is
  called twice with the same egress time of the request.  \<open>port_event\<close> changes
  \<open>delay_req\<close> only on the delay timer, when the new Delay_Req was sent (the event
  is \<open>EV_NONE\<close> and the transport sent a positive number of bytes);
  \<open>port_dispatch\<close> and \<open>port_compute_best\<close> leave it alone.
\<close>

theorem delay_req_retained:
  "delay_req (fst (process_delay_resp e p c m)) = delay_req p
   \<and> (delay_resp_accepted e p m \<longrightarrow> delay_req p = Some req \<longrightarrow>
        calls (snd (process_delay_resp e (fst (process_delay_resp e p c m))
                      (snd (process_delay_resp e p c m)) m)) =
          calls c @ [Path_Delay (hwts_ts (hwts req)) (ts_pdu m) (correction (header m)),
                     Path_Delay (hwts_ts (hwts req)) (ts_pdu m) (correction (header m))])
   \<and> (port_event e p c k i = Some (ev, p1, c1, k1) \<longrightarrow> delay_req p1 \<noteq> delay_req p \<longrightarrow>
        i = FD_DELAY_TIMER \<and> ev = EV_NONE \<and> 0 < send_cnt e)
   \<and> (port_dispatch fsm e p c k fev = Some (p2, c2, k2) \<longrightarrow> delay_req p2 = delay_req p)
   \<and> (port_compute_best cmp nows c p = Some (b, p3) \<longrightarrow> delay_req p3 = delay_req p)"
proof -
  have twice: "calls (snd (process_delay_resp e (fst (process_delay_resp e p c m))
                      (snd (process_delay_resp e p c m)) m)) =
          calls c @ [Path_Delay (hwts_ts (hwts req)) (ts_pdu m) (correction (header m)),
                     Path_Delay (hwts_ts (hwts req)) (ts_pdu m) (correction (header m))]"
    if "delay_resp_accepted e p m" "delay_req p = Some req"
    using that
    by (auto simp: process_delay_resp_def delay_resp_accepted_def pid_eq_def Let_def
        clock_path_delay_def)
  show ?thesis
    using twice port_event_delay_req [of e p c k i ev p1 c1 k1]
      port_dispatch_delay_req [of fsm e p c k fev p2 c2 k2]
      port_compute_best_delay_req [of cmp nows c p b p3]
    by (simp add: process_delay_resp_delay_req)
qed

theorem delay_req_retained_witness:
  "delay_resp_accepted demo_env waiting_port (delay_resp_for 7)
   \<and> delay_req waiting_port = Some stored_delay_req
   \<and> delay_req (fst (process_delay_resp demo_env waiting_port demo_clock (delay_resp_for 7)))
       = Some stored_delay_req
   \<and> calls (snd (process_delay_resp demo_env
         (fst (process_delay_resp demo_env waiting_port demo_clock (delay_resp_for 7)))
         (snd (process_delay_resp demo_env waiting_port demo_clock (delay_resp_for 7)))
         (delay_resp_for 7)))
       = [Path_Delay (at_sec 200) \<lparr>sec = 210, nsec = 0\<rparr> 1,
          Path_Delay (at_sec 200) \<lparr>sec = 210, nsec = 0\<rparr> 1]
   \<and> map_option (\<lambda>(ev, p1, c1, k1). (ev, delay_req p1 = delay_req waiting_port))
         (port_event demo_env waiting_port demo_clock demo_sys FD_DELAY_TIMER)
       = Some (EV_NONE, False)
   \<and> map_option (\<lambda>(p2, c2, k2). (state p2, delay_req p2))
         (port_dispatch (\<lambda>s ev. PS_LISTENING) demo_env waiting_port demo_clock demo_sys EV_NONE)
       = Some (PS_LISTENING, Some stored_delay_req)
   \<and> map_option (\<lambda>(b, p3). delay_req p3)
         (port_compute_best (\<lambda>a b. 0) (\<lambda>i. at_sec 10) demo_clock waiting_port)
       = Some (Some stored_delay_req)"
proof -
  obtain ev p1 c1 k1 where
    r1: "port_event demo_env waiting_port demo_clock demo_sys FD_DELAY_TIMER
           = Some (ev, p1, c1, k1)"
    and r1': "delay_req p1 \<noteq> delay_req waiting_port"
    by (simp add: port_event_def port_set_delay_tmo_def shl1_def timerfd_settime_def
        port_delay_request_def delay_req_build_def transport_send_def Let_def demo_defs
        bswap16_def)
  obtain p2 c2 k2 where
    r2: "port_dispatch (\<lambda>s ev. PS_LISTENING) demo_env waiting_port demo_clock demo_sys EV_NONE
           = Some (p2, c2, k2)"
    and r2': "state p2 = PS_LISTENING"
    by (simp add: port_dispatch_def dispatch_timers_def set_announce_clr_delay_def
        port_set_announce_tmo_def port_clr_tmo_def shl1_def chk32_def timerfd_settime_def
        Let_def demo_defs)
  obtain b p3 where
    r3: "port_compute_best (\<lambda>a b. 0) (\<lambda>i. at_sec 10) demo_clock waiting_port = Some (b, p3)"
    by (simp add: port_compute_best_def demo_defs)
  have acc: "delay_resp_accepted demo_env waiting_port (delay_resp_for 7)"
    by (simp add: demo_defs delay_resp_accepted_def ntohs_def bswap16_def)
  have req: "delay_req waiting_port = Some stored_delay_req"
    by (simp add: waiting_port_def)
  have vals: "hwts_ts (hwts stored_delay_req) = at_sec 200"
    "ts_pdu (delay_resp_for 7) = \<lparr>sec = 210, nsec = 0\<rparr>"
    "correction (header (delay_resp_for 7)) = 1" "calls demo_clock = []"
    by (simp_all add: demo_defs)
  from delay_req_retained
      [of demo_env waiting_port demo_clock "delay_resp_for 7" stored_delay_req
          demo_sys FD_DELAY_TIMER ev p1 c1 k1 "\<lambda>s ev. PS_LISTENING" EV_NONE p2 c2 k2
          "\<lambda>a b. 0" "\<lambda>i. at_sec 10" b p3]
    r1 r1' r2 r2' r3 acc req vals
  show ?thesis by simp
qed

section \<open>Facts about the state machine driver and the dispatcher\<close>

lemma port_initialize_returns:
  "\<exists>r p0 c0 k0. port_initialize e p c k = Some (r, p0, c0, k0) \<and> (r = 0 \<or> r = - 1)"
  unfolding port_initialize_def Let_def port_set_announce_tmo_def
  by (auto simp: shl1_def chk32_def LOG_ANNOUNCE_INTERVAL_def ANNOUNCE_RECEIPT_TIMEOUT_def
      split: prod.splits)

lemma dispatch_state:
  "port_dispatch fsm e p c k ev = Some (p1, c1, k1) \<Longrightarrow> state p1 \<noteq> PS_INITIALIZING"
  unfolding port_dispatch_def Let_def
  by (auto split: if_splits option.splits)

text \<open>
  C9, as amended.  After \<open>port_dispatch\<close> has returned, the state of the port is not
  INITIALIZING.  When the transition function yields INITIALIZING, \<open>port_dispatch\<close>
  returns, having run \<open>port_initialize\<close>, with state LISTENING when that returned 0
  and FAULTY otherwise.  When the transition function yields the current state and
  that state is not INITIALIZING, port, clock and timers are returned unchanged.
\<close>

theorem port_dispatch_skips_initializing:
  "(port_dispatch fsm e p c k ev = Some (p1, c1, k1) \<longrightarrow> state p1 \<noteq> PS_INITIALIZING)
   \<and> (fsm (state p) ev = PS_INITIALIZING \<longrightarrow>
        (\<exists>r p0 c0 k0. port_initialize e p c k = Some (r, p0, c0, k0)
           \<and> port_dispatch fsm e p c k ev =
               Some (p0\<lparr>state := (if r = 0 then PS_LISTENING else PS_FAULTY)\<rparr>, c0, k0)))
   \<and> (fsm (state p) ev = state p \<longrightarrow> state p \<noteq> PS_INITIALIZING \<longrightarrow>
        port_dispatch fsm e p c k ev = Some (p, c, k))"
proof -
  obtain r p0 c0 k0 where "port_initialize e p c k = Some (r, p0, c0, k0)"
    using port_initialize_returns [of e p c k] by blast
  then have "fsm (state p) ev = PS_INITIALIZING \<Longrightarrow>
        (\<exists>r p0 c0 k0. port_initialize e p c k = Some (r, p0, c0, k0)
           \<and> port_dispatch fsm e p c k ev =
               Some (p0\<lparr>state := (if r = 0 then PS_LISTENING else PS_FAULTY)\<rparr>, c0, k0))"
    by (simp add: port_dispatch_def)
  moreover have "fsm (state p) ev = state p \<Longrightarrow> state p \<noteq> PS_INITIALIZING \<Longrightarrow>
        port_dispatch fsm e p c k ev = Some (p, c, k)"
    by (auto simp: port_dispatch_def)
  ultimately show ?thesis
    using dispatch_state [of fsm e p c k ev p1 c1 k1] by blast
qed

theorem port_dispatch_skips_initializing_witness:
  "init_fsm (state (demo_port PS_FAULTY)) (EV_OTHER 0) = PS_INITIALIZING
   \<and> map_option (\<lambda>(p1, c1, k1). state p1)
        (port_dispatch init_fsm demo_env (demo_port PS_FAULTY) demo_clock demo_sys (EV_OTHER 0))
       = Some PS_LISTENING
   \<and> map_option (\<lambda>(p1, c1, k1). state p1)
        (port_dispatch init_fsm (demo_env\<lparr>tfd_create1 := - 1\<rparr>) (demo_port PS_FAULTY)
           demo_clock demo_sys (EV_OTHER 0))
       = Some PS_FAULTY
   \<and> init_fsm (state (demo_port PS_SLAVE)) EV_NONE = state (demo_port PS_SLAVE)
   \<and> port_dispatch init_fsm demo_env (demo_port PS_SLAVE) demo_clock demo_sys EV_NONE
       = Some (demo_port PS_SLAVE, demo_clock, demo_sys)"
proof -
  have i1: "init_fsm (state (demo_port PS_FAULTY)) (EV_OTHER 0) = PS_INITIALIZING"
    and i2: "init_fsm (state (demo_port PS_SLAVE)) EV_NONE = state (demo_port PS_SLAVE)"
    and i3: "state (demo_port PS_SLAVE) \<noteq> PS_INITIALIZING"
    by (simp_all add: init_fsm_def demo_port_def)
  have ok: "\<exists>p0 c0 k0. port_initialize demo_env (demo_port PS_FAULTY) demo_clock demo_sys
              = Some (0, p0, c0, k0)"
    by (simp add: port_initialize_def port_set_announce_tmo_def shl1_def chk32_def
        timerfd_settime_def LOG_ANNOUNCE_INTERVAL_def ANNOUNCE_RECEIPT_TIMEOUT_def Let_def
        demo_env_def)
  have bad: "\<exists>p0 c0 k0. port_initialize (demo_env\<lparr>tfd_create1 := - 1\<rparr>) (demo_port PS_FAULTY)
               demo_clock demo_sys = Some (- 1, p0, c0, k0)"
    by (simp add: port_initialize_def Let_def demo_env_def)
  from port_dispatch_skips_initializing
         [of init_fsm demo_env "demo_port PS_FAULTY" demo_clock demo_sys "EV_OTHER 0"] i1 ok
  have a: "map_option (\<lambda>(p1, c1, k1). state p1)
        (port_dispatch init_fsm demo_env (demo_port PS_FAULTY) demo_clock demo_sys (EV_OTHER 0))
       = Some PS_LISTENING"
    by auto
  from port_dispatch_skips_initializing
         [of init_fsm "demo_env\<lparr>tfd_create1 := - 1\<rparr>" "demo_port PS_FAULTY" demo_clock
             demo_sys "EV_OTHER 0"] i1 bad
  have b: "map_option (\<lambda>(p1, c1, k1). state p1)
        (port_dispatch init_fsm (demo_env\<lparr>tfd_create1 := - 1\<rparr>) (demo_port PS_FAULTY)
           demo_clock demo_sys (EV_OTHER 0))
       = Some PS_FAULTY"
    by auto
  from port_dispatch_skips_initializing
         [of init_fsm demo_env "demo_port PS_SLAVE" demo_clock demo_sys EV_NONE] i2 i3
  have c: "port_dispatch init_fsm demo_env (demo_port PS_SLAVE) demo_clock demo_sys EV_NONE
       = Some (demo_port PS_SLAVE, demo_clock, demo_sys)"
    by simp
  from i1 i2 a b c show ?thesis by simp
qed

text \<open>
  C9 as stated fails where the current state is INITIALIZING itself, the state in
  which \<open>port_open\<close> creates a port: the transition function yields the current
  state, and \<open>port_dispatch\<close> initializes the port and writes LISTENING.
\<close>

theorem port_dispatch_initializing_counterexample:
  "port_open demo_env ''eth0'' True TS_HARDWARE 1 0 demo_clock
     = Some ((demo_port PS_INITIALIZING)
               \<lparr>name := ''eth0'', timestamping := TS_HARDWARE, versionNumber := 2\<rparr>)
   \<and> init_fsm (state ((demo_port PS_INITIALIZING)
               \<lparr>name := ''eth0'', timestamping := TS_HARDWARE, versionNumber := 2\<rparr>))
        (EV_OTHER 0)
       = state ((demo_port PS_INITIALIZING)
               \<lparr>name := ''eth0'', timestamping := TS_HARDWARE, versionNumber := 2\<rparr>)
   \<and> map_option (\<lambda>(p1, c1, k1). (state p1, logAnnounceInterval p1, calls c1))
        (port_dispatch init_fsm demo_env
           ((demo_port PS_INITIALIZING)
               \<lparr>name := ''eth0'', timestamping := TS_HARDWARE, versionNumber := 2\<rparr>)
           demo_clock demo_sys (EV_OTHER 0))
       = Some (PS_LISTENING, 1, [Install_Fda own_pid])"
  by (simp add: port_open_def clock_identity_def init_fsm_def port_dispatch_def
      port_initialize_def port_set_announce_tmo_def shl1_def chk32_def timerfd_settime_def
      clock_install_fda_def LOG_ANNOUNCE_INTERVAL_def ANNOUNCE_RECEIPT_TIMEOUT_def Let_def
      demo_defs)

lemma bswap32_bytes:
  "(ucast (bswap32 w) :: 8 word) = ucast (drop_bit 24 w)"
  "(ucast (drop_bit 8 (bswap32 w)) :: 8 word) = ucast (drop_bit 16 w)"
  "(ucast (drop_bit 16 (bswap32 w)) :: 8 word) = ucast (drop_bit 8 w)"
  "(ucast (drop_bit 24 (bswap32 w)) :: 8 word) = ucast w"
  unfolding bswap32_def
  by (rule bit_word_eqI; auto simp: bit_simps)+

lemma bswap16_bswap16: "bswap16 (bswap16 w) = w"
  unfolding bswap16_def
  by (rule bit_word_eqI) (auto simp: bit_simps)

lemma ntohs_htons: "ntohs e (htons e w) = w"
  by (simp add: ntohs_def htons_def bswap16_bswap16)

text \<open>On the wire the octets of a field written with \<open>htonl\<close> are those of the
  value, most significant first, whatever the byte order of the host.\<close>

lemma mem32_htonl:
  "mem32 e (htonl e w) =
     [ucast (drop_bit 24 w), ucast (drop_bit 16 w), ucast (drop_bit 8 w), ucast w]"
  by (simp add: mem32_def htonl_def bswap32_bytes)

text \<open>The receive time stamp of the Delay_Resp: the low 32 bits of the seconds and
  of the nanoseconds of the ingress time, big-endian, and a \<open>seconds_msb\<close> of zero.\<close>

lemma delay_resp_build_receive_timestamp:
  "mem32 e (seconds_lsb (receiveTimestamp (delay_resp (delay_resp_build e p m)))) =
     [ucast (drop_bit 24 (tv_sec (hwts_ts (hwts m)))),
      ucast (drop_bit 16 (tv_sec (hwts_ts (hwts m)))),
      ucast (drop_bit 8 (tv_sec (hwts_ts (hwts m)))),
      ucast (tv_sec (hwts_ts (hwts m)))]"
  "mem32 e (nanoseconds (receiveTimestamp (delay_resp (delay_resp_build e p m)))) =
     [ucast (drop_bit 24 (tv_nsec (hwts_ts (hwts m)))),
      ucast (drop_bit 16 (tv_nsec (hwts_ts (hwts m)))),
      ucast (drop_bit 8 (tv_nsec (hwts_ts (hwts m)))),
      ucast (tv_nsec (hwts_ts (hwts m)))]"
  "mem16 e (seconds_msb (receiveTimestamp (delay_resp (delay_resp_build e p m)))) = [0, 0]"
proof -
  have low: "(ucast (drop_bit n (ucast w :: 32 word)) :: 8 word) = ucast (drop_bit n w)"
    if "n \<le> 24" for n and w :: "64 word"
    using that by (intro bit_word_eqI) (auto simp: bit_simps)
  from low [of 0] have low0: "(ucast (ucast w :: 32 word) :: 8 word) = ucast w"
    for w :: "64 word" by simp
  show "mem32 e (seconds_lsb (receiveTimestamp (delay_resp (delay_resp_build e p m)))) =
     [ucast (drop_bit 24 (tv_sec (hwts_ts (hwts m)))),
      ucast (drop_bit 16 (tv_sec (hwts_ts (hwts m)))),
      ucast (drop_bit 8 (tv_sec (hwts_ts (hwts m)))),
      ucast (tv_sec (hwts_ts (hwts m)))]"
    by (simp add: delay_resp_build_def mem32_htonl low low0)
  show "mem32 e (nanoseconds (receiveTimestamp (delay_resp (delay_resp_build e p m)))) =
     [ucast (drop_bit 24 (tv_nsec (hwts_ts (hwts m)))),
      ucast (drop_bit 16 (tv_nsec (hwts_ts (hwts m)))),
      ucast (drop_bit 8 (tv_nsec (hwts_ts (hwts m)))),
      ucast (tv_nsec (hwts_ts (hwts m)))]"
    by (simp add: delay_resp_build_def mem32_htonl low low0)
  show "mem16 e (seconds_msb (receiveTimestamp (delay_resp (delay_resp_build e p m))))
          = [0, 0]"
    by (simp add: delay_resp_build_def mem16_def htons_def bswap16_def)
qed

lemma delay_resp_build_seconds_msb:
  "seconds_msb (receiveTimestamp (delay_resp (delay_resp_build e p m))) = 0"
  by (simp add: delay_resp_build_def htons_def bswap16_def)

text \<open>
  C7 at the failing input: a Delay_Req with ingress time \<open>2^32\<close> seconds reaches a
  port in MASTER.  The upper 16 bits of the 48 bit seconds value are 1; the
  Delay_Resp handed to the transport carries \<open>seconds_msb = 0\<close> (and the low 32
  bits \<open>seconds_lsb = 0\<close>), on a host of either byte order.
\<close>

theorem delay_resp_seconds_msb_dropped:
  "tv_sec (hwts_ts (hwts late_delay_req)) = 2 ^ 32
   \<and> (ucast (drop_bit 32 (tv_sec (hwts_ts (hwts late_delay_req)))) :: 16 word) = 1
   \<and> receiveTimestamp (delay_resp (delay_resp_build demo_env (demo_port PS_MASTER)
        late_delay_req))
       = \<lparr>seconds_msb = 0, seconds_lsb = 0, nanoseconds = 0\<rparr>
   \<and> receiveTimestamp (delay_resp (delay_resp_build (demo_env\<lparr>host_le := False\<rparr>)
        (demo_port PS_MASTER) late_delay_req))
       = \<lparr>seconds_msb = 0, seconds_lsb = 0, nanoseconds = 0\<rparr>
   \<and> map (\<lambda>(ev, m). (ev, receiveTimestamp (delay_resp m)))
        (sent (snd (process_delay_req demo_env (demo_port PS_MASTER) late_delay_req demo_sys)))
       = [(False, \<lparr>seconds_msb = 0, seconds_lsb = 0, nanoseconds = 0\<rparr>)]"
  by (simp add: late_delay_req_def process_delay_req_def delay_resp_build_def
      transport_send_def htons_def htonl_def bswap16_def bswap32_def Let_def demo_defs)

text \<open>The failures that \<open>port_event\<close> does report: no receive buffer, a failed
  receive, and a Delay_Req that could not be sent when the delay timer fired.\<close>

lemma port_event_faults_reported:
  "i = FD_EVENT \<or> i = FD_GENERAL \<Longrightarrow> \<not> alloc_rx e \<or> rx_cnt e \<le> 0 \<Longrightarrow>
     port_event e p c k i = Some (EV_FAULT_DETECTED, p, c, k)"
  "port_set_delay_tmo e p k = Some (r, k1) \<Longrightarrow>
   \<not> alloc_tx e \<or> fst (msg_pre_send e (delay_req_build p c)) \<noteq> 0 \<or> send_cnt e \<le> 0 \<Longrightarrow>
     \<exists>p1 k2. port_event e p c k FD_DELAY_TIMER = Some (EV_FAULT_DETECTED, p1, c, k2)"
  by (auto simp: port_event_def port_delay_request_def transport_send_def Let_def
      split: prod.splits)

lemma port_event_delay_req_ignores_result:
  assumes "i = FD_EVENT \<or> i = FD_GENERAL" and "alloc_rx e" and "0 < rx_cnt e"
    and "rx_post e = 0" and "msg_type (rx_msg e) = DELAY_REQ"
  shows "port_event e p c k i = Some (EV_NONE, p, c, snd (process_delay_req e p (rx_msg e) k))"
  using assms by (auto simp: port_event_def Let_def split: prod.splits)

text \<open>
  C8 at the failing input: a port in MASTER receives a Delay_Req and the transport
  fails to send the Delay_Resp.  \<open>process_delay_req\<close> returns -1, and \<open>port_event\<close>,
  which drops that result, returns \<open>EV_NONE\<close>, not \<open>EV_FAULT_DETECTED\<close>.
\<close>

theorem port_event_drops_send_failure:
  "send_cnt send_fails_env \<le> 0
   \<and> fst (process_delay_req send_fails_env (demo_port PS_MASTER) (rx_msg send_fails_env)
        demo_sys) = - 1
   \<and> port_event send_fails_env (demo_port PS_MASTER) demo_clock demo_sys FD_EVENT
       = Some (EV_NONE, demo_port PS_MASTER, demo_clock, demo_sys)"
  by (simp add: send_fails_env_def port_event_def process_delay_req_def transport_send_def
      msg_type_def Let_def demo_defs)

section \<open>Facts about foreign master records\<close>

lemma fc_ok_drop_last:
  assumes "fc_ok fc" and "n_messages fc \<noteq> 0"
  shows "messages fc \<noteq> []" and "fc_ok (drop_last fc)"
    and "n_messages (drop_last fc) \<le> n_messages fc"
proof -
  from assms have pos: "0 < unat (n_messages fc)" by (simp add: unat_gt_0)
  with assms(1) show "messages fc \<noteq> []" by (auto simp: fc_ok_def)
  from assms pos show "fc_ok (drop_last fc)"
    by (simp add: fc_ok_def drop_last_def unat_minus_one)
  from assms(2) show "n_messages (drop_last fc) \<le> n_messages fc"
    by (simp add: drop_last_def word_le_nat_alt unat_minus_one)
qed

lemma fc_ok_empty: "fc_ok fc \<Longrightarrow> (messages fc = []) = (n_messages fc = 0)"
  by (auto simp: fc_ok_def unat_eq_0)

lemma fc_clear_ok:
  "fc_ok fc \<Longrightarrow> fc_clear fc = Some (fc\<lparr>messages := [], n_messages := 0\<rparr>)"
proof (induction fc rule: fc_clear.induct)
  case (1 fc)
  show ?case
  proof (cases "n_messages fc = 0")
    case True
    with "1.prems" have "messages fc = []" by (simp add: fc_ok_empty)
    with True show ?thesis by (subst fc_clear.simps) simp
  next
    case False
    with "1.prems" have ne: "messages fc \<noteq> []" and ok: "fc_ok (drop_last fc)"
      by (simp_all add: fc_ok_drop_last)
    from "1.IH" [OF False ne ok] False ne show ?thesis
      by (subst fc_clear.simps) (simp add: drop_last_def)
  qed
qed

lemma fc_prune_excess_ok:
  "fc_ok fc \<Longrightarrow>
     \<exists>fc1. fc_prune_excess fc = Some fc1 \<and> fc_ok fc1
       \<and> n_messages fc1 \<le> FOREIGN_MASTER_THRESHOLD \<and> n_messages fc1 \<le> n_messages fc
       \<and> fc_dataset fc1 = fc_dataset fc"
proof (induction fc rule: fc_prune_excess.induct)
  case (1 fc)
  show ?case
  proof (cases "FOREIGN_MASTER_THRESHOLD < n_messages fc")
    case False
    with "1.prems" show ?thesis by (subst fc_prune_excess.simps) simp
  next
    case True
    then have nz: "n_messages fc \<noteq> 0" by auto
    with "1.prems" have ne: "messages fc \<noteq> []" and ok: "fc_ok (drop_last fc)"
      and le: "n_messages (drop_last fc) \<le> n_messages fc"
      by (simp_all add: fc_ok_drop_last)
    from "1.IH" [OF True ne ok] obtain fc1 where
      "fc_prune_excess (drop_last fc) = Some fc1" "fc_ok fc1"
      "n_messages fc1 \<le> FOREIGN_MASTER_THRESHOLD" "n_messages fc1 \<le> n_messages (drop_last fc)"
      "fc_dataset fc1 = fc_dataset (drop_last fc)"
      by blast
    with True ne le show ?thesis
      by (subst fc_prune_excess.simps) (auto simp: drop_last_def)
  qed
qed

lemma fc_prune_excess_small:
  "n_messages fc \<le> FOREIGN_MASTER_THRESHOLD \<Longrightarrow> fc_prune_excess fc = Some fc"
  by (subst fc_prune_excess.simps) (simp add: not_less [symmetric])

lemma fc_prune_stale_ok:
  "fc_ok fc \<Longrightarrow> fc_prune_stale nw fc = Some fc1 \<Longrightarrow>
     fc_ok fc1 \<and> n_messages fc1 \<le> n_messages fc \<and> fc_dataset fc1 = fc_dataset fc"
proof (induction nw fc rule: fc_prune_stale.induct)
  case (1 nw fc)
  show ?case
  proof (cases "messages fc = []")
    case True
    with "1.prems" show ?thesis by (subst (asm) fc_prune_stale.simps) simp
  next
    case False
    with "1.prems"(1) have nz: "n_messages fc \<noteq> 0" by (simp add: fc_ok_empty)
    with "1.prems"(1) have ok: "fc_ok (drop_last fc)"
      and le: "n_messages (drop_last fc) \<le> n_messages fc"
      by (simp_all add: fc_ok_drop_last)
    from "1.prems"(2) False obtain cur where
      cur: "msg_current (last (messages fc)) nw = Some cur"
      and res: "(if cur then Some fc else fc_prune_stale nw (drop_last fc)) = Some fc1"
      by (subst (asm) fc_prune_stale.simps) (auto split: option.splits)
    show ?thesis
    proof (cases cur)
      case True
      with res "1.prems"(1) show ?thesis by simp
    next
      case nc: False
      with res have "fc_prune_stale nw (drop_last fc) = Some fc1" by simp
      from "1.IH" [OF False cur nc ok this] le show ?thesis
        by (auto simp: drop_last_def)
    qed
  qed
qed

lemma fc_prune_ok:
  assumes "fc_ok fc" and "fc_prune nw fc = Some fc1"
  shows "fc_ok fc1" and "n_messages fc1 \<le> FOREIGN_MASTER_THRESHOLD"
    and "n_messages fc1 \<le> n_messages fc" and "fc_dataset fc1 = fc_dataset fc"
proof -
  from fc_prune_excess_ok [OF assms(1)] obtain fc0 where
    e: "fc_prune_excess fc = Some fc0" "fc_ok fc0"
      "n_messages fc0 \<le> FOREIGN_MASTER_THRESHOLD" "n_messages fc0 \<le> n_messages fc"
      "fc_dataset fc0 = fc_dataset fc"
    by blast
  with assms(2) have "fc_prune_stale nw fc0 = Some fc1" by (simp add: fc_prune_def)
  from fc_prune_stale_ok [OF e(2) this] e
  show "fc_ok fc1" "n_messages fc1 \<le> FOREIGN_MASTER_THRESHOLD"
    "n_messages fc1 \<le> n_messages fc" "fc_dataset fc1 = fc_dataset fc"
    by auto
qed

lemma fc_prune_empty:
  "fc_ok fc \<Longrightarrow> messages fc = [] \<Longrightarrow> fc_prune nw fc = Some fc"
  by (simp add: fc_prune_def fc_ok_empty fc_prune_excess_small
      fc_prune_stale.simps [of nw fc])

lemma fc_add_ok:
  assumes "fc_ok fc" and "n_messages fc \<le> FOREIGN_MASTER_THRESHOLD"
  shows "fc_ok (fc_add fc m)"
    and "n_messages (fc_add fc m) \<le> FOREIGN_MASTER_THRESHOLD + 1"
    and "(1 < n_messages (fc_add fc m)) = (messages fc \<noteq> [])"
proof -
  from assms(2) have le: "unat (n_messages fc) \<le> 2"
    by (simp add: FOREIGN_MASTER_THRESHOLD_def word_le_nat_alt)
  then have suc: "unat (n_messages fc + 1) = unat (n_messages fc) + 1"
    by (simp add: unat_word_ariths)
  with assms(1) show "fc_ok (fc_add fc m)" by (simp add: fc_ok_def fc_add_def)
  from suc le show "n_messages (fc_add fc m) \<le> FOREIGN_MASTER_THRESHOLD + 1"
    by (simp add: fc_add_def FOREIGN_MASTER_THRESHOLD_def word_le_nat_alt)
  from suc assms(1) show "(1 < n_messages (fc_add fc m)) = (messages fc \<noteq> [])"
    by (auto simp: fc_add_def word_less_nat_alt fc_ok_def)
qed

section \<open>Facts about the foreign master table\<close>

lemma fc_lookup_None:
  "(fc_lookup m fms = None) = (\<forall>fc \<in> set fms. \<not> msg_source_equal m fc)"
  by (induction fms) auto

lemma fc_lookup_first:
  "i < length fms \<Longrightarrow> msg_source_equal m (fms ! i) \<Longrightarrow>
   (\<forall>j<i. \<not> msg_source_equal m (fms ! j)) \<Longrightarrow> fc_lookup m fms = Some i"
proof (induction fms arbitrary: i)
  case Nil
  then show ?case by simp
next
  case (Cons fc fms)
  show ?case
  proof (cases i)
    case 0
    with Cons.prems show ?thesis by simp
  next
    case (Suc i')
    with Cons.prems have "\<not> msg_source_equal m fc" by auto
    moreover from Suc Cons.prems have "fc_lookup m fms = Some i'"
      by (intro Cons.IH) auto
    ultimately show ?thesis using Suc by simp
  qed
qed

lemma fc_lookup_less: "fc_lookup m fms = Some i \<Longrightarrow> i < length fms"
  by (induction fms arbitrary: i) (auto split: if_splits)

lemma compare_with_next_add:
  "messages fc \<noteq> [] \<Longrightarrow>
     compare_with_next (fc_add fc m) = Some (announce_compare m (hd (messages fc)))"
  by (cases "messages fc") (simp_all add: compare_with_next_def fc_add_def)

text \<open>
  C2.  When no record of the table has the sender of the message,
  \<open>add_foreign_master\<close> returns false; when \<open>malloc\<close> succeeds the table gets a new
  head record of that sender with an empty queue and counter 0, otherwise the port
  is unchanged.  When \<open>i\<close> is the first record of the sender (its counter being the
  length of its queue) and \<open>fc_prune\<close> leaves \<open>pruned\<close>, the message is put at the
  head of \<open>pruned\<close> and the result is true iff \<open>pruned\<close> held \<open>FOREIGN_MASTER_THRESHOLD - 1\<close>
  messages, or \<open>pruned\<close> was not empty and the message differs from its head over the
  five compared fields.
\<close>

theorem add_foreign_master_result:
  "((\<forall>fc \<in> set (foreign_masters p). \<not> msg_source_equal m fc) \<longrightarrow>
      add_foreign_master e p m =
        Some (False,
              if malloc_ok e
              then p\<lparr>foreign_masters := new_foreign_clock m # foreign_masters p,
                     best := map_option Suc (best p)\<rparr>
              else p)
      \<and> messages (new_foreign_clock m) = [] \<and> n_messages (new_foreign_clock m) = 0
      \<and> sender (fc_dataset (new_foreign_clock m)) = sourcePortIdentity (header m))
   \<and> (i < length (foreign_masters p) \<longrightarrow> msg_source_equal m (foreign_masters p ! i) \<longrightarrow>
      (\<forall>j<i. \<not> msg_source_equal m (foreign_masters p ! j)) \<longrightarrow>
      fc_ok (foreign_masters p ! i) \<longrightarrow>
      fc_prune (now e) (foreign_masters p ! i) = Some pruned \<longrightarrow>
      add_foreign_master e p m =
        Some (n_messages pruned = FOREIGN_MASTER_THRESHOLD - 1
                \<or> (messages pruned \<noteq> [] \<and> announce_compare m (hd (messages pruned))),
              p\<lparr>foreign_masters := (foreign_masters p)[i := fc_add pruned m]\<rparr>))"
proof (intro conjI impI)
  assume "\<forall>fc \<in> set (foreign_masters p). \<not> msg_source_equal m fc"
  then have "fc_lookup m (foreign_masters p) = None" by (simp add: fc_lookup_None)
  then show "add_foreign_master e p m =
        Some (False,
              if malloc_ok e
              then p\<lparr>foreign_masters := new_foreign_clock m # foreign_masters p,
                     best := map_option Suc (best p)\<rparr>
              else p)"
    by (simp add: add_foreign_master_def)
next
  show "messages (new_foreign_clock m) = []" "n_messages (new_foreign_clock m) = 0"
    "sender (fc_dataset (new_foreign_clock m)) = sourcePortIdentity (header m)"
    by (simp_all add: new_foreign_clock_def)
next
  assume i: "i < length (foreign_masters p)" "msg_source_equal m (foreign_masters p ! i)"
    "\<forall>j<i. \<not> msg_source_equal m (foreign_masters p ! j)"
    and ok: "fc_ok (foreign_masters p ! i)"
    and pr: "fc_prune (now e) (foreign_masters p ! i) = Some pruned"
  from i have look: "fc_lookup m (foreign_masters p) = Some i" by (rule fc_lookup_first)
  from fc_prune_ok [OF ok pr] have ok0: "fc_ok pruned"
    and le0: "n_messages pruned \<le> FOREIGN_MASTER_THRESHOLD"
    by simp_all
  note gt = fc_add_ok(3) [OF ok0 le0, of m]
  show "add_foreign_master e p m =
        Some (n_messages pruned = FOREIGN_MASTER_THRESHOLD - 1
                \<or> (messages pruned \<noteq> [] \<and> announce_compare m (hd (messages pruned))),
              p\<lparr>foreign_masters := (foreign_masters p)[i := fc_add pruned m]\<rparr>)"
  proof (cases "messages pruned = []")
    case True
    with gt look pr show ?thesis
      by (auto simp: add_foreign_master_def Let_def)
  next
    case False
    with gt look pr compare_with_next_add [OF False, of m] show ?thesis
      by (auto simp: add_foreign_master_def Let_def)
  qed
qed

theorem add_foreign_master_result_witness:
  "add_foreign_master demo_env (table_port PS_LISTENING None [])
       (announce_from master_pid 10 128)
     = Some (False, table_port PS_LISTENING None [demo_fc master_pid 0 []])
   \<and> fc_prune (now demo_env) (demo_fc master_pid 1 [announce_from master_pid 8 128])
     = Some (demo_fc master_pid 1 [announce_from master_pid 8 128])
   \<and> add_foreign_master demo_env
       (table_port PS_LISTENING None [demo_fc master_pid 1 [announce_from master_pid 8 128]])
       (announce_from master_pid 10 128)
     = Some (True, table_port PS_LISTENING None
         [demo_fc master_pid 2 [announce_from master_pid 10 128,
                                 announce_from master_pid 8 128]])"
proof -
  have pr: "fc_prune (now demo_env) (demo_fc master_pid 1 [announce_from master_pid 8 128])
     = Some (demo_fc master_pid 1 [announce_from master_pid 8 128])"
    by (simp add: prune_defs c_arith_defs Option.bind_def demo_defs)
  from add_foreign_master_result
         [where p = "table_port PS_LISTENING None []"
            and m = "announce_from master_pid 10 128" and e = demo_env]
  have a: "add_foreign_master demo_env (table_port PS_LISTENING None [])
       (announce_from master_pid 10 128)
     = Some (False, table_port PS_LISTENING None [demo_fc master_pid 0 []])"
    by (simp add: new_foreign_clock_def demo_defs)
  from add_foreign_master_result
         [where p = "table_port PS_LISTENING None
                       [demo_fc master_pid 1 [announce_from master_pid 8 128]]"
            and m = "announce_from master_pid 10 128" and i = 0 and e = demo_env
            and pruned = "demo_fc master_pid 1 [announce_from master_pid 8 128]"] pr
  have b: "add_foreign_master demo_env
       (table_port PS_LISTENING None [demo_fc master_pid 1 [announce_from master_pid 8 128]])
       (announce_from master_pid 10 128)
     = Some (True, table_port PS_LISTENING None
         [demo_fc master_pid 2 [announce_from master_pid 10 128,
                                 announce_from master_pid 8 128]])"
    by (simp add: msg_source_equal_def fc_ok_def fc_add_def FOREIGN_MASTER_THRESHOLD_def
        demo_defs)
  from a b pr show ?thesis by simp
qed

section \<open>The table invariant\<close>

lemma list_all_update:
  "list_all P xs \<Longrightarrow> P x \<Longrightarrow> list_all P (xs[i := x])"
  by (induction xs arbitrary: i) (auto split: nat.splits)

lemma port_ok_update:
  assumes "port_ok p" and "fc_ok fc" and "n_messages fc \<le> FOREIGN_MASTER_THRESHOLD + 1"
  shows "port_ok (p\<lparr>foreign_masters := (foreign_masters p)[i := fc]\<rparr>)"
  using assms by (simp add: port_ok_def list_all_update)

lemma port_ok_nth:
  "port_ok p \<Longrightarrow> i < length (foreign_masters p) \<Longrightarrow> fc_ok (foreign_masters p ! i)"
  by (simp add: port_ok_def list_all_length)

lemma threshold_le_succ:
  "(n :: 32 word) \<le> FOREIGN_MASTER_THRESHOLD \<Longrightarrow> n \<le> FOREIGN_MASTER_THRESHOLD + 1"
  by (simp add: FOREIGN_MASTER_THRESHOLD_def word_le_nat_alt)

lemma add_foreign_master_port_ok:
  assumes "port_ok p" and "add_foreign_master e p m = Some (r, p1)"
  shows "port_ok p1"
proof (cases "fc_lookup m (foreign_masters p)")
  case None
  with assms(2) have "p1 = p \<or> p1 = p\<lparr>foreign_masters := new_foreign_clock m # foreign_masters p,
                     best := map_option Suc (best p)\<rparr>"
    by (auto simp: add_foreign_master_def split: if_splits)
  with assms(1) show ?thesis
    by (auto simp: port_ok_def new_foreign_clock_def fc_ok_def)
next
  case (Some i)
  then have less: "i < length (foreign_masters p)" by (rule fc_lookup_less)
  from assms(2) Some obtain pruned where
    pr: "fc_prune (now e) (foreign_masters p ! i) = Some pruned"
    and p1: "p1 = p\<lparr>foreign_masters := (foreign_masters p)[i := fc_add pruned m]\<rparr>"
    by (auto simp: add_foreign_master_def Let_def split: option.splits if_splits)
  from fc_prune_ok [OF port_ok_nth [OF assms(1) less] pr]
  have "fc_ok pruned" "n_messages pruned \<le> FOREIGN_MASTER_THRESHOLD" by simp_all
  then have "fc_ok (fc_add pruned m)"
    "n_messages (fc_add pruned m) \<le> FOREIGN_MASTER_THRESHOLD + 1"
    by (simp_all add: fc_add_ok)
  with assms(1) p1 show ?thesis by (simp add: port_ok_update)
qed

lemma update_current_master_port_ok:
  assumes "port_ok p" and "update_current_master e p m k = Some (r, p1, k1)"
  shows "port_ok p1"
proof -
  from assms(2) obtain b where b: "best p = Some b" "b < length (foreign_masters p)"
    by (auto simp: update_current_master_def split: option.splits if_splits)
  show ?thesis
  proof (cases "msg_source_equal m (foreign_masters p ! b)")
    case False
    with assms(2) b obtain r' where "add_foreign_master e p m = Some (r', p1)"
      by (auto simp: update_current_master_def)
    with assms(1) show ?thesis by (rule add_foreign_master_port_ok)
  next
    case True
    with assms(2) b obtain pruned where
      pr: "fc_prune (now e) (foreign_masters p ! b) = Some pruned"
      and p1: "p1 = p\<lparr>foreign_masters := (foreign_masters p)[b := fc_add pruned m]\<rparr>"
      by (auto simp: update_current_master_def Let_def split: option.splits if_splits)
    from fc_prune_ok [OF port_ok_nth [OF assms(1) b(2)] pr]
    have "fc_ok pruned" "n_messages pruned \<le> FOREIGN_MASTER_THRESHOLD" by simp_all
    then have "fc_ok (fc_add pruned m)"
      "n_messages (fc_add pruned m) \<le> FOREIGN_MASTER_THRESHOLD + 1"
      by (simp_all add: fc_add_ok)
    with assms(1) p1 show ?thesis by (simp add: port_ok_update)
  qed
qed

lemma process_announce_port_ok:
  assumes "port_ok p" and "process_announce e p m k = Some (r, p1, k1)"
  shows "port_ok p1"
  using assms unfolding process_announce_def
  by (auto split: port_state.splits
      dest: add_foreign_master_port_ok update_current_master_port_ok)

lemma clear_best_port_ok:
  assumes "port_ok p" and "clear_best p = Some p1"
  shows "port_ok p1"
proof (cases "best p")
  case None
  with assms show ?thesis by (simp add: clear_best_def)
next
  case (Some b)
  with assms(2) have less: "b < length (foreign_masters p)"
    by (auto simp: clear_best_def split: if_splits)
  note ok = port_ok_nth [OF assms(1) less]
  from assms(2) Some less fc_clear_ok [OF ok]
  have "p1 = p\<lparr>foreign_masters :=
          (foreign_masters p)[b := (foreign_masters p ! b)\<lparr>messages := [], n_messages := 0\<rparr>]\<rparr>"
    by (auto simp: clear_best_def)
  with assms(1) show ?thesis by (simp add: port_ok_update fc_ok_def)
qed

lemma process_sync_table:
  "foreign_masters (fst (process_sync p c m)) = foreign_masters p"
  unfolding process_sync_def
  by (auto split: port_state.splits option.splits if_splits)

lemma process_follow_up_table:
  "foreign_masters (fst (process_follow_up p c m)) = foreign_masters p"
  unfolding process_follow_up_def
  by (auto split: port_state.splits option.splits if_splits)

lemma process_delay_resp_table:
  "foreign_masters (fst (process_delay_resp e p c m)) = foreign_masters p"
  unfolding process_delay_resp_def Let_def
  by (auto split: option.splits if_splits)

lemma port_delay_request_table:
  "foreign_masters (fst (snd (port_delay_request e p c k))) = foreign_masters p"
  unfolding port_delay_request_def Let_def
  by (auto split: if_splits prod.splits)

lemma port_initialize_table:
  "port_initialize e p c k = Some (r, p1, c1, k1) \<Longrightarrow> foreign_masters p1 = foreign_masters p"
  unfolding port_initialize_def Let_def
  by (auto split: if_splits prod.splits option.splits)

lemma port_dispatch_table:
  "port_dispatch fsm e p c k ev = Some (p1, c1, k1) \<Longrightarrow> foreign_masters p1 = foreign_masters p"
  unfolding port_dispatch_def Let_def
  by (auto split: if_splits prod.splits option.splits dest: port_initialize_table)

lemma port_event_rx_cases:
  assumes "port_event e p c k i = Some (ev, p1, c1, k1)"
    and "i = FD_EVENT \<or> i = FD_GENERAL"
  shows "p1 = p \<or> p1 = fst (process_sync p c (rx_msg e))
       \<or> p1 = fst (process_follow_up p c (rx_msg e))
       \<or> p1 = fst (process_delay_resp e p c (rx_msg e))
       \<or> (\<exists>r. process_announce e p (rx_msg e) k = Some (r, p1, k1))"
  using assms unfolding port_event_def Let_def
  by (auto simp: case_prod_unfold split: if_splits message_type.splits)

lemma port_event_timer_cases:
  assumes "port_event e p c k i = Some (ev, p1, c1, k1)"
    and "i = FD_ANNOUNCE_TIMER \<or> i = FD_DELAY_TIMER"
  shows "clear_best p = Some p1 \<or> (\<exists>k2. p1 = fst (snd (port_delay_request e p c k2)))"
  using assms unfolding port_event_def Let_def
  by (auto simp: case_prod_unfold bind_eq_Some_conv)

lemma port_event_port_ok:
  assumes "port_ok p" and "port_event e p c k i = Some (ev, p1, c1, k1)"
  shows "port_ok p1"
proof (cases "i = FD_EVENT \<or> i = FD_GENERAL")
  case True
  from assms(1) have sy: "port_ok (fst (process_sync p c (rx_msg e)))"
    by (simp add: port_ok_def process_sync_table)
  from assms(1) have fu: "port_ok (fst (process_follow_up p c (rx_msg e)))"
    by (simp add: port_ok_def process_follow_up_table)
  from assms(1) have dr: "port_ok (fst (process_delay_resp e p c (rx_msg e)))"
    by (simp add: port_ok_def process_delay_resp_table)
  from port_event_rx_cases [OF assms(2) True] assms(1) sy fu dr show ?thesis
    by (elim disjE exE) (simp_all add: process_announce_port_ok [OF assms(1)])
next
  case False
  then have "i = FD_ANNOUNCE_TIMER \<or> i = FD_DELAY_TIMER" by (cases i) simp_all
  from port_event_timer_cases [OF assms(2) this] show ?thesis
  proof (elim disjE exE)
    assume "clear_best p = Some p1"
    with assms(1) show ?thesis by (rule clear_best_port_ok)
  next
    fix k2 assume "p1 = fst (snd (port_delay_request e p c k2))"
    with assms(1) show ?thesis by (simp add: port_ok_def port_delay_request_table)
  qed
qed

section \<open>Facts about the selection of the best foreign master\<close>

lemma body_not_qualified:
  assumes ok: "fc_ok fc"
    and body: "port_compute_best_body cmp nw c seen b fc = Some (fc1, b1)"
    and nq: "\<not> qualifies nw fc"
  shows "b1 = b \<and> fc_ok fc1 \<and> n_messages fc1 \<le> n_messages fc"
proof (cases "messages fc")
  case Nil
  with body ok show ?thesis by (simp add: port_compute_best_body_def)
next
  case (Cons tmp ms)
  with body obtain pruned where pr: "fc_prune nw fc = Some pruned"
    by (auto simp: port_compute_best_body_def split: option.splits)
  with nq have "n_messages pruned < FOREIGN_MASTER_THRESHOLD"
    by (simp add: qualifies_def not_le)
  with body Cons pr fc_prune_ok [OF ok pr] show ?thesis
    by (simp add: port_compute_best_body_def)
qed

lemma body_qualified:
  assumes ok: "fc_ok fc"
    and body: "port_compute_best_body cmp nw c seen b fc = Some (fc1, b1)"
    and q: "qualifies nw fc"
  shows "fc_ok fc1 \<and> n_messages fc1 \<le> FOREIGN_MASTER_THRESHOLD
       \<and> (b = None \<longrightarrow> b1 = Some (length seen))
       \<and> (\<forall>j. b = Some j \<longrightarrow>
            (0 < cmp (fc_dataset fc1) (fc_dataset (seen ! j)) \<longrightarrow> b1 = Some (length seen))
            \<and> (\<not> 0 < cmp (fc_dataset fc1) (fc_dataset (seen ! j)) \<longrightarrow>
                 b1 = b \<and> messages fc1 = [] \<and> n_messages fc1 = 0))"
proof -
  from q obtain pruned where pr: "fc_prune nw fc = Some pruned"
    and ge: "FOREIGN_MASTER_THRESHOLD \<le> n_messages pruned"
    by (auto simp: qualifies_def split: option.splits)
  note pok = fc_prune_ok [OF ok pr]
  from ge have "n_messages pruned \<noteq> 0" by (auto simp: FOREIGN_MASTER_THRESHOLD_def)
  with pok(1) have pne: "messages pruned \<noteq> []" by (simp add: fc_ok_empty)
  have "messages fc \<noteq> []"
  proof
    assume "messages fc = []"
    with ok pr have "pruned = fc" by (simp add: fc_prune_empty)
    with pne \<open>messages fc = []\<close> show False by simp
  qed
  then obtain tmp ms where ms: "messages fc = tmp # ms" by (cases "messages fc") auto
  let ?fc2 = "pruned\<lparr>fc_dataset := announce_to_dataset tmp c (fc_dataset pruned)\<rparr>"
  from pok(1) have ok2: "fc_ok ?fc2" by (simp add: fc_ok_def)
  from ge have nlt: "\<not> n_messages pruned < FOREIGN_MASTER_THRESHOLD" by (simp add: not_less)
  from body ms pr nlt pne
  have eq: "(case b of
               None \<Rightarrow> Some (?fc2, Some (length seen))
             | Some j \<Rightarrow>
                 if 0 < cmp (fc_dataset ?fc2) (fc_dataset (seen ! j))
                 then Some (?fc2, Some (length seen))
                 else map_option (\<lambda>fc3. (fc3, b)) (fc_clear ?fc2)) = Some (fc1, b1)"
    by (simp add: port_compute_best_body_def Let_def)
  show ?thesis
  proof (cases b)
    case None
    with eq ok2 pok(2) show ?thesis by auto
  next
    case (Some j)
    show ?thesis
    proof (cases "0 < cmp (fc_dataset ?fc2) (fc_dataset (seen ! j))")
      case True
      with eq Some ok2 pok(2) show ?thesis by auto
    next
      case False
      with eq Some fc_clear_ok [OF ok2]
      have "fc1 = ?fc2\<lparr>messages := [], n_messages := 0\<rparr>" "b1 = b" by auto
      with False Some show ?thesis by (simp add: fc_ok_def)
    qed
  qed
qed

lemma body_keeps_ok:
  assumes "fc_ok fc \<and> n_messages fc \<le> FOREIGN_MASTER_THRESHOLD + 1"
    and "port_compute_best_body cmp nw c seen b fc = Some (fc1, b1)"
  shows "fc_ok fc1 \<and> n_messages fc1 \<le> FOREIGN_MASTER_THRESHOLD + 1"
proof (cases "qualifies nw fc")
  case True
  with body_qualified [of fc cmp nw c seen b fc1 b1] assms show ?thesis
    by (simp add: threshold_le_succ)
next
  case False
  with body_not_qualified [of fc cmp nw c seen b fc1 b1] assms show ?thesis
    by auto
qed

lemma loop_keeps_ok:
  assumes "list_all (\<lambda>fc. fc_ok fc \<and> n_messages fc \<le> FOREIGN_MASTER_THRESHOLD + 1) seen"
    and "list_all (\<lambda>fc. fc_ok fc \<and> n_messages fc \<le> FOREIGN_MASTER_THRESHOLD + 1) rest"
    and "port_compute_best_loop cmp nows c seen b rest = Some (out, b')"
  shows "list_all (\<lambda>fc. fc_ok fc \<and> n_messages fc \<le> FOREIGN_MASTER_THRESHOLD + 1) out"
  using assms
proof (induction rest arbitrary: seen b)
  case Nil
  then show ?case by simp
next
  case (Cons fc rest)
  from Cons.prems(3) obtain fc1 b1 where
    body: "port_compute_best_body cmp (nows (length seen)) c seen b fc = Some (fc1, b1)"
    and loop: "port_compute_best_loop cmp nows c (seen @ [fc1]) b1 rest = Some (out, b')"
    by (auto split: option.splits)
  from Cons.prems(2) have "fc_ok fc \<and> n_messages fc \<le> FOREIGN_MASTER_THRESHOLD + 1"
    by simp
  from this body have "fc_ok fc1 \<and> n_messages fc1 \<le> FOREIGN_MASTER_THRESHOLD + 1"
    by (rule body_keeps_ok)
  with Cons.prems(1) have "list_all (\<lambda>fc. fc_ok fc \<and> n_messages fc \<le> FOREIGN_MASTER_THRESHOLD + 1)
      (seen @ [fc1])"
    by simp
  from Cons.IH [OF this _ loop] Cons.prems(2) show ?case by simp
qed

lemma port_compute_best_port_ok:
  assumes "port_ok p" and "port_compute_best cmp nows c p = Some (b, p1)"
  shows "port_ok p1"
proof -
  from assms(2) obtain out where
    "port_compute_best_loop cmp nows c [] None (foreign_masters p) = Some (out, b)"
    "foreign_masters p1 = out"
    by (auto simp: port_compute_best_def split: option.splits)
  with loop_keeps_ok [of "[]" "foreign_masters p" cmp nows c None out b] assms(1)
  show ?thesis by (simp add: port_ok_def)
qed



lemma port_open_port_ok:
  "port_open e nm found tst num dm c = Some p0 \<Longrightarrow> port_ok p0"
  by (auto simp: port_open_def port_ok_def zero_port_def split: if_splits)

lemma port_dispatch_port_ok:
  "port_ok p \<Longrightarrow> port_dispatch fsm e p c k ev = Some (p1, c1, k1) \<Longrightarrow> port_ok p1"
  by (simp add: port_ok_def port_dispatch_table)

text \<open>
  C3, as amended.  A port is created with an empty table.  If, in every record of
  the table, \<open>n_messages\<close> is the length of the queue and at most
  \<open>FOREIGN_MASTER_THRESHOLD + 1\<close>, then the same holds after \<open>add_foreign_master\<close>,
  \<open>update_current_master\<close>, \<open>port_event\<close>, \<open>port_compute_best\<close> and \<open>port_dispatch\<close>
  have returned: \<open>fc_prune\<close> bounds the counter by the threshold, and the add that
  follows it raises the counter by one.
\<close>

theorem table_invariant:
  "(port_open e nm found tst num dm c = Some p0 \<longrightarrow> port_ok p0)
   \<and> (port_ok p \<longrightarrow>
        (add_foreign_master e p m = Some (r, p1) \<longrightarrow> port_ok p1)
        \<and> (update_current_master e p m k = Some (r2, p2, k2) \<longrightarrow> port_ok p2)
        \<and> (port_event e p c k i = Some (ev, p3, c3, k3) \<longrightarrow> port_ok p3)
        \<and> (port_compute_best cmp nows c p = Some (b, p4) \<longrightarrow> port_ok p4)
        \<and> (port_dispatch fsm e p c k fev = Some (p5, c5, k5) \<longrightarrow> port_ok p5))"
  using port_open_port_ok [of e nm found tst num dm c p0]
    add_foreign_master_port_ok [of p e m r p1]
    update_current_master_port_ok [of p e m k r2 p2 k2]
    port_event_port_ok [of p e c k i ev p3 c3 k3]
    port_compute_best_port_ok [of p cmp nows c b p4]
    port_dispatch_port_ok [of p fsm e c k fev p5 c5 k5]
  by blast

lemma steady_prune:
  "fc_prune (at_sec 10)
     (demo_fc master_pid 2 [announce_from master_pid 8 128, announce_from master_pid 6 128])
   = Some (demo_fc master_pid 2
             [announce_from master_pid 8 128, announce_from master_pid 6 128])"
  by (simp add: prune_defs c_arith_defs Option.bind_def demo_defs)

lemma steady_add:
  "add_foreign_master announce_env steady_port (announce_from master_pid 10 128)
   = Some (False, table_port PS_SLAVE (Some 0)
       [demo_fc master_pid 3 [announce_from master_pid 10 128, announce_from master_pid 8 128,
                               announce_from master_pid 6 128]])"
  using steady_prune
  by (simp add: add_foreign_master_def steady_port_def msg_source_equal_def Let_def
      compare_with_next_def FOREIGN_MASTER_THRESHOLD_def demo_sel announce_env_sel)

lemma steady_update:
  "update_current_master announce_env steady_port (announce_from master_pid 10 128) demo_sys
   = Some (False, table_port PS_SLAVE (Some 0)
       [demo_fc master_pid 3 [announce_from master_pid 10 128, announce_from master_pid 8 128,
                               announce_from master_pid 6 128]], demo_sys)"
  using steady_prune
  by (simp add: update_current_master_def steady_port_def msg_source_equal_def Let_def
      port_set_announce_tmo_def timerfd_settime_def c_arith_defs compare_with_next_def
      demo_sys_def demo_sel announce_env_sel fun_upd_idem_iff)

lemma steady_event:
  "port_event announce_env steady_port demo_clock demo_sys FD_GENERAL
   = Some (EV_NONE, table_port PS_SLAVE (Some 0)
       [demo_fc master_pid 3 [announce_from master_pid 10 128, announce_from master_pid 8 128,
                               announce_from master_pid 6 128]], demo_clock, demo_sys)"
proof -
  have "state steady_port = PS_SLAVE" by (simp add: steady_port_def demo_sel)
  with steady_update show ?thesis
    by (simp add: port_event_def process_announce_def demo_sel announce_env_sel)
qed

lemma steady_ok: "port_ok steady_port"
  by (simp add: port_ok_def fc_ok_def steady_port_def FOREIGN_MASTER_THRESHOLD_def demo_sel)

theorem table_invariant_witness:
  "port_ok steady_port
   \<and> map_option (\<lambda>(r, p1). port_ok p1)
        (add_foreign_master announce_env steady_port (announce_from master_pid 10 128))
       = Some True
   \<and> map_option (\<lambda>(r, p1, k1). port_ok p1)
        (update_current_master announce_env steady_port (announce_from master_pid 10 128)
           demo_sys)
       = Some True
   \<and> map_option (\<lambda>(ev, p1, c1, k1). (port_ok p1, map n_messages (foreign_masters p1)))
        (port_event announce_env steady_port demo_clock demo_sys FD_GENERAL)
       = Some (True, [3])
   \<and> map_option (\<lambda>(b, p1). port_ok p1)
        (port_compute_best by_priority1 (\<lambda>i. at_sec 10) demo_clock steady_port)
       = Some True
   \<and> map_option (\<lambda>(p1, c1, k1). port_ok p1)
        (port_dispatch init_fsm announce_env steady_port demo_clock demo_sys EV_NONE)
       = Some True
   \<and> map_option port_ok (port_open announce_env ''eth0'' True TS_HARDWARE 1 0 demo_clock)
       = Some True"
proof -
  obtain b p4 where
    r4: "port_compute_best by_priority1 (\<lambda>i. at_sec 10) demo_clock steady_port = Some (b, p4)"
    using steady_prune
    by (simp add: port_compute_best_def port_compute_best_body_def steady_port_def
        FOREIGN_MASTER_THRESHOLD_def demo_sel)
  obtain p5 c5 k5 where
    r5: "port_dispatch init_fsm announce_env steady_port demo_clock demo_sys EV_NONE
           = Some (p5, c5, k5)"
    by (simp add: port_dispatch_def init_fsm_def steady_port_def demo_sel)
  obtain p0 where
    r0: "port_open announce_env ''eth0'' True TS_HARDWARE 1 0 demo_clock = Some p0"
    by (simp add: port_open_def announce_env_sel)
  from table_invariant
         [where e = announce_env and p = steady_port and m = "announce_from master_pid 10 128"
            and k = demo_sys and c = demo_clock and i = FD_GENERAL
            and cmp = by_priority1 and nows = "\<lambda>i. at_sec 10" and fsm = init_fsm
            and fev = EV_NONE and nm = "''eth0''" and found = True and tst = TS_HARDWARE
            and num = 1 and dm = 0]
    steady_ok steady_add steady_update steady_event r4 r5 r0
  show ?thesis
    by (simp add: demo_sel)
qed

text \<open>
  C3 as stated fails: the record of a master with two current messages is pruned to
  two and then receives the third, so that after \<open>add_foreign_master\<close>, and after
  the \<open>port_event\<close> that called it has returned, \<open>n_messages\<close> is 3, above
  \<open>FOREIGN_MASTER_THRESHOLD\<close>.
\<close>

theorem table_bound_counterexample:
  "port_ok steady_port
   \<and> map_option (\<lambda>(r, p1). map (\<lambda>fc. (n_messages fc, length (messages fc)))
                              (foreign_masters p1))
        (add_foreign_master announce_env steady_port (announce_from master_pid 10 128))
       = Some [(3, 3)]
   \<and> map_option (\<lambda>(ev, p1, c1, k1). (ev, map n_messages (foreign_masters p1)))
        (port_event announce_env steady_port demo_clock demo_sys FD_GENERAL)
       = Some (EV_NONE, [3])
   \<and> \<not> (3 :: 32 word) \<le> FOREIGN_MASTER_THRESHOLD"
  by (simp add: steady_ok steady_add steady_event FOREIGN_MASTER_THRESHOLD_def demo_sel)























end
